theory Spec2Isabelle
  imports Complex_Main
begin

section \<open>Numbers, time and errors\<close>

text \<open>
  The Python sources compute with floats. Here a float is a \<^typ>\<open>real\<close>: arithmetic is
  exact, rounding and overflow are not modelled. A division whose divisor is zero is never
  left to HOL's \<open>x / 0 = 0\<close>: where the source divides two Python floats the model raises
  \<open>ZeroDivisionError\<close>, where it divides pandas series the model yields the IEEE value
  (\<open>inf\<close>, \<open>-inf\<close>, \<open>nan\<close>) that numpy yields. A timestamp is an integer (a count of
  minutes); only its identity and order matter.
\<close>

datatype error = ZeroDivisionError | IndexError | KeyError

datatype npfloat = Fin real | PInf | NInf | NaN

section \<open>engine/portfolio.py: the ledger entities\<close>

datatype PositionType = LONG | SHORT

record Trade =
  entry_time :: int
  exit_time :: "int option"
  position_type :: PositionType
  entry_price :: real
  exit_price :: real
  quantity :: real
  commission :: real
  pnl :: real
  pnl_percent :: real
  status :: string

text \<open>\<open>Trade.close_trade\<close>: the P&L uses the entry commission stored so far plus the exit
  commission; \<open>pnl_percent\<close> is only written when the entry price is positive.\<close>

definition close_trade :: "Trade \<Rightarrow> int \<Rightarrow> real \<Rightarrow> real \<Rightarrow> Trade" where
  "close_trade tr exit_time' exit_price' commission' =
     tr\<lparr> exit_time := Some exit_time',
         exit_price := exit_price',
         status := ''CLOSED'',
         pnl := (if position_type tr = LONG
                 then (exit_price' - entry_price tr) * quantity tr - commission tr - commission'
                 else (entry_price tr - exit_price') * quantity tr - commission tr - commission'),
         commission := commission tr + commission',
         pnl_percent := (if entry_price tr > 0
                         then (if position_type tr = LONG
                               then ((exit_price' - entry_price tr) / entry_price tr) * 100
                               else ((entry_price tr - exit_price') / entry_price tr) * 100)
                         else pnl_percent tr) \<rparr>"

definition is_winner :: "Trade \<Rightarrow> bool" where
  "is_winner tr \<longleftrightarrow> pnl tr > 0"

text \<open>The fields of \<open>Position\<close> carry the prefix \<open>pos_\<close> where \<open>Trade\<close> has a field of the
  same name.\<close>

record Position =
  pos_position_type :: PositionType
  pos_entry_time :: int
  pos_entry_price :: real
  pos_quantity :: real
  current_price :: real

definition update_price :: "Position \<Rightarrow> real \<Rightarrow> Position" where
  "update_price p price = p\<lparr> current_price := price \<rparr>"

definition unrealized_pnl :: "Position \<Rightarrow> real" where
  "unrealized_pnl p =
     (if pos_position_type p = LONG
      then (current_price p - pos_entry_price p) * pos_quantity p
      else (pos_entry_price p - current_price p) * pos_quantity p)"

section \<open>engine/portfolio.py: the portfolio\<close>

record Portfolio =
  initial_capital :: real
  commission_rate :: real
  position_size :: real
  allow_short :: bool
  cash :: real
  equity :: real
  current_position :: "Position option"
  trades :: "Trade list"
  equity_curve :: "real list"
  timestamps :: "int list"

text \<open>\<open>Portfolio.__init__\<close>.\<close>

definition Portfolio_init :: "real \<Rightarrow> real \<Rightarrow> real \<Rightarrow> bool \<Rightarrow> Portfolio" where
  "Portfolio_init initial_capital' commission_rate' position_size' allow_short' =
     \<lparr> initial_capital = initial_capital',
       commission_rate = commission_rate',
       position_size = position_size',
       allow_short = allow_short',
       cash = initial_capital',
       equity = initial_capital',
       current_position = None,
       trades = [],
       equity_curve = [],
       timestamps = [] \<rparr>"

text \<open>The quantity of an auto-sized open: two float divisions in the source's order, each
  raising on a zero divisor.\<close>

definition auto_quantity :: "Portfolio \<Rightarrow> real \<Rightarrow> error + real" where
  "auto_quantity s price =
     (let available_for_position = cash s * position_size s in
      if 1 + commission_rate s = 0 then Inl ZeroDivisionError
      else let position_value = available_for_position / (1 + commission_rate s) in
           if price = 0 then Inl ZeroDivisionError
           else Inr (position_value / price))"

text \<open>\<open>Portfolio.open_position\<close>. The result is the returned bool and the portfolio after
  the call; \<open>Inl\<close> is an exception that leaves the call.\<close>

definition open_position ::
  "Portfolio \<Rightarrow> int \<Rightarrow> real \<Rightarrow> PositionType \<Rightarrow> real option \<Rightarrow> error + (bool \<times> Portfolio)" where
  "open_position s timestamp price ptype quantity_arg =
     (if current_position s \<noteq> None then Inr (False, s)
      else if ptype = SHORT \<and> \<not> allow_short s then Inr (False, s)
      else
        (case (case quantity_arg of None \<Rightarrow> auto_quantity s price | Some q \<Rightarrow> Inr q) of
           Inl e \<Rightarrow> Inl e
         | Inr q \<Rightarrow>
             (let commission' = q * price * commission_rate s;
                  required_capital = q * price + commission'
              in if required_capital > cash s then Inr (False, s)
                 else Inr (True,
                   s\<lparr> current_position :=
                         Some \<lparr> pos_position_type = ptype,
                                pos_entry_time = timestamp,
                                pos_entry_price = price,
                                pos_quantity = q,
                                current_price = price \<rparr>,
                       cash := cash s - required_capital,
                       trades := trades s @
                         [\<lparr> entry_time = timestamp,
                            exit_time = None,
                            position_type = ptype,
                            entry_price = price,
                            exit_price = 0,
                            quantity = q,
                            commission = commission',
                            pnl = 0,
                            pnl_percent = 0,
                            status = ''OPEN'' \<rparr>] \<rparr>))))"

text \<open>\<open>Portfolio.close_position\<close>: the last trade of the log is closed and cash credited
  only when the log is non-empty and its last entry is \<open>OPEN\<close>; the position is cleared
  either way.\<close>

definition close_position :: "Portfolio \<Rightarrow> int \<Rightarrow> real \<Rightarrow> bool \<times> Portfolio" where
  "close_position s timestamp price =
     (case current_position s of
        None \<Rightarrow> (False, s)
      | Some p \<Rightarrow>
          (let commission' = pos_quantity p * price * commission_rate s;
               s1 = (if trades s \<noteq> [] \<and> status (last (trades s)) = ''OPEN''
                     then s\<lparr> trades := butlast (trades s) @
                                 [close_trade (last (trades s)) timestamp price commission'],
                             cash := (if pos_position_type p = LONG
                                      then cash s + (pos_quantity p * price - commission')
                                      else cash s + (pos_quantity p * pos_entry_price p
                                             + (pos_entry_price p - price) * pos_quantity p
                                             - commission')) \<rparr>
                     else s)
           in (True, s1\<lparr> current_position := None \<rparr>)))"

text \<open>\<open>Portfolio.update\<close>.\<close>

definition update :: "Portfolio \<Rightarrow> int \<Rightarrow> real \<Rightarrow> Portfolio" where
  "update s timestamp price =
     (let s1 = (case current_position s of
                  Some p \<Rightarrow>
                    (let p' = update_price p price
                     in s\<lparr> current_position := Some p',
                           equity := cash s + unrealized_pnl p' + pos_quantity p' * price \<rparr>)
                | None \<Rightarrow> s\<lparr> equity := cash s \<rparr>)
      in s1\<lparr> equity_curve := equity_curve s1 @ [equity s1],
             timestamps := timestamps s1 @ [timestamp] \<rparr>)"

text \<open>\<open>Portfolio.reset\<close>.\<close>

definition reset :: "Portfolio \<Rightarrow> Portfolio" where
  "reset s = s\<lparr> cash := initial_capital s,
               equity := initial_capital s,
               current_position := None,
               trades := [],
               equity_curve := [],
               timestamps := [] \<rparr>"

text \<open>The read-only queries of the trade log.\<close>

definition get_closed_trades :: "Portfolio \<Rightarrow> Trade list" where
  "get_closed_trades s = filter (\<lambda>t. status t = ''CLOSED'') (trades s)"

definition get_open_trades :: "Portfolio \<Rightarrow> Trade list" where
  "get_open_trades s = filter (\<lambda>t. status t = ''OPEN'') (trades s)"

definition total_trades :: "Portfolio \<Rightarrow> nat" where
  "total_trades s = length (get_closed_trades s)"

definition winning_trades :: "Portfolio \<Rightarrow> nat" where
  "winning_trades s = length (filter is_winner (get_closed_trades s))"

definition losing_trades :: "Portfolio \<Rightarrow> nat" where
  "losing_trades s = length (filter (\<lambda>t. \<not> is_winner t) (get_closed_trades s))"

text \<open>The two sums of \<open>Portfolio.profit_factor\<close> (its local variables \<open>gross_profit\<close> and
  \<open>gross_loss\<close>), and the method itself; \<open>float('inf')\<close> is \<^const>\<open>PInf\<close>.\<close>

definition gross_profit :: "Portfolio \<Rightarrow> real" where
  "gross_profit s = sum_list (map pnl (filter is_winner (get_closed_trades s)))"

definition gross_loss :: "Portfolio \<Rightarrow> real" where
  "gross_loss s = \<bar>sum_list (map pnl (filter (\<lambda>t. \<not> is_winner t) (get_closed_trades s)))\<bar>"

definition profit_factor :: "Portfolio \<Rightarrow> npfloat" where
  "profit_factor s =
     (if gross_loss s = 0
      then (if gross_profit s > 0 then PInf else Fin 0)
      else Fin (gross_profit s / gross_loss s))"

section \<open>engine/backtest.py: the execution loop\<close>

text \<open>\<open>SignalType\<close> and the integer each member stands for in the \<open>signal\<close> column.\<close>

datatype SignalType = BUY | SELL | HOLD

fun signal_value :: "SignalType \<Rightarrow> int" where
  "signal_value BUY = 1"
| "signal_value SELL = - 1"
| "signal_value HOLD = 0"

text \<open>A row of \<open>signals_df\<close>: its index (the bar's timestamp), its \<open>close\<close> and its
  \<open>signal\<close>, which is \<open>None\<close> when the frame has no such column.\<close>

record Row =
  row_time :: int
  close :: real
  signal :: "int option"

definition row_signal :: "Row \<Rightarrow> int" where
  "row_signal row = (case signal row of None \<Rightarrow> signal_value HOLD | Some v \<Rightarrow> v)"

text \<open>The fields of \<open>Backtester\<close> that \<open>_execute_trades\<close> reads: its own \<open>allow_short\<close>
  (here \<open>bt_allow_short\<close>), \<open>slippage\<close> and the portfolio.\<close>

record Backtester =
  bt_allow_short :: bool
  slippage :: real
  portfolio :: Portfolio

text \<open>The block "Apply slippage" of the loop body.\<close>

definition execution_price :: "Backtester \<Rightarrow> int \<Rightarrow> real \<Rightarrow> real" where
  "execution_price bt sig close_price =
     (if sig = signal_value BUY then close_price * (1 + slippage bt)
      else if sig = signal_value SELL then close_price * (1 - slippage bt)
      else close_price)"

text \<open>The block "Process signal" of the loop body, on the portfolio. The bool that
  \<open>open_position\<close> and \<open>close_position\<close> return is dropped, as in the source.\<close>

definition process_signal :: "Backtester \<Rightarrow> int \<Rightarrow> int \<Rightarrow> real \<Rightarrow> error + Portfolio" where
  "process_signal bt timestamp sig price =
     (let pf = portfolio bt in
      if sig = signal_value BUY then
        (let pf1 = (case current_position pf of
                      Some p \<Rightarrow> if pos_position_type p = SHORT
                                then snd (close_position pf timestamp price) else pf
                    | None \<Rightarrow> pf)
         in if current_position pf1 = None
            then (case open_position pf1 timestamp price LONG None of
                    Inl e \<Rightarrow> Inl e
                  | Inr r \<Rightarrow> Inr (snd r))
            else Inr pf1)
      else if sig = signal_value SELL then
        (let pf1 = (case current_position pf of
                      Some p \<Rightarrow> if pos_position_type p = LONG
                                then snd (close_position pf timestamp price) else pf
                    | None \<Rightarrow> pf)
         in if current_position pf1 = None \<and> bt_allow_short bt
            then (case open_position pf1 timestamp price SHORT None of
                    Inl e \<Rightarrow> Inl e
                  | Inr r \<Rightarrow> Inr (snd r))
            else Inr pf1)
      else Inr pf)"

text \<open>One iteration of the loop of \<open>_execute_trades\<close>.\<close>

definition process_row :: "Backtester \<Rightarrow> Row \<Rightarrow> error + Backtester" where
  "process_row bt row =
     (let sig = row_signal row;
          close_price = close row
      in case process_signal bt (row_time row) sig (execution_price bt sig close_price) of
           Inl e \<Rightarrow> Inl e
         | Inr pf \<Rightarrow> Inr (bt\<lparr> portfolio := update pf (row_time row) close_price \<rparr>))"

text \<open>The loop: an exception ends it.\<close>

fun execute_rows :: "Backtester \<Rightarrow> Row list \<Rightarrow> error + Backtester" where
  "execute_rows bt [] = Inr bt"
| "execute_rows bt (row # rows) =
     (case process_row bt row of
        Inl e \<Rightarrow> Inl e
      | Inr bt' \<Rightarrow> execute_rows bt' rows)"

text \<open>\<open>Backtester._execute_trades\<close>: the loop, then the forced close at the last row, whose
  lookup raises \<open>IndexError\<close> on an empty frame.\<close>

definition execute_trades :: "Backtester \<Rightarrow> Row list \<Rightarrow> error + Backtester" where
  "execute_trades bt rows =
     (case execute_rows bt rows of
        Inl e \<Rightarrow> Inl e
      | Inr bt' \<Rightarrow>
          if current_position (portfolio bt') \<noteq> None
          then (if rows = [] then Inl IndexError
                else Inr (bt'\<lparr> portfolio :=
                       snd (close_position (portfolio bt')
                              (row_time (last rows)) (close (last rows))) \<rparr>))
          else Inr bt')"

text \<open>\<open>Backtester.run\<close> from the reset of the portfolio to the end of \<open>_execute_trades\<close>,
  the strategy's \<open>signals_df\<close> given.\<close>

definition run_signals :: "Backtester \<Rightarrow> Row list \<Rightarrow> error + Backtester" where
  "run_signals bt rows = execute_trades (bt\<lparr> portfolio := reset (portfolio bt) \<rparr>) rows"

section \<open>Series arithmetic of numpy and pandas\<close>

text \<open>Division of two float64 values: a zero divisor gives a signed infinity or \<open>nan\<close>.\<close>

definition np_div :: "real \<Rightarrow> real \<Rightarrow> npfloat" where
  "np_div a b =
     (if b \<noteq> 0 then Fin (a / b)
      else if a > 0 then PInf else if a < 0 then NInf else NaN)"

fun np_times :: "npfloat \<Rightarrow> real \<Rightarrow> npfloat" where
  "np_times (Fin x) k = Fin (x * k)"
| "np_times PInf k = (if k > 0 then PInf else if k < 0 then NInf else NaN)"
| "np_times NInf k = (if k > 0 then NInf else if k < 0 then PInf else NaN)"
| "np_times NaN k = NaN"

fun np_abs :: "npfloat \<Rightarrow> npfloat" where
  "np_abs (Fin x) = Fin \<bar>x\<bar>"
| "np_abs PInf = PInf"
| "np_abs NInf = PInf"
| "np_abs NaN = NaN"

text \<open>The smaller of two values that are not \<open>nan\<close>.\<close>

fun np_min :: "npfloat \<Rightarrow> npfloat \<Rightarrow> npfloat" where
  "np_min NInf b = NInf"
| "np_min a NInf = NInf"
| "np_min PInf b = b"
| "np_min a PInf = a"
| "np_min (Fin x) (Fin y) = Fin (min x y)"
| "np_min a b = NaN"

text \<open>\<open>Series.min()\<close>: \<open>nan\<close> entries are skipped, and a series with nothing else gives
  \<open>nan\<close>.\<close>

definition series_min :: "npfloat list \<Rightarrow> npfloat" where
  "series_min xs =
     (case filter (\<lambda>x. x \<noteq> NaN) xs of
        [] \<Rightarrow> NaN
      | y # ys \<Rightarrow> fold np_min ys y)"

text \<open>\<open>Series.expanding().max()\<close>: the running maximum.\<close>

fun expanding_max_from :: "real \<Rightarrow> real list \<Rightarrow> real list" where
  "expanding_max_from m [] = []"
| "expanding_max_from m (x # xs) = max m x # expanding_max_from (max m x) xs"

fun expanding_max :: "real list \<Rightarrow> real list" where
  "expanding_max [] = []"
| "expanding_max (x # xs) = x # expanding_max_from x xs"

text \<open>\<open>Series.pct_change()\<close>: the first entry has no predecessor and is \<open>nan\<close>, every other
  one is \<open>current / previous - 1\<close>; and \<open>Series.dropna()\<close>, which removes the \<open>nan\<close> entries
  and keeps the infinite ones.\<close>

fun np_minus :: "npfloat \<Rightarrow> real \<Rightarrow> npfloat" where
  "np_minus (Fin x) k = Fin (x - k)"
| "np_minus PInf k = PInf"
| "np_minus NInf k = NInf"
| "np_minus NaN k = NaN"

fun pct_change_from :: "real \<Rightarrow> real list \<Rightarrow> npfloat list" where
  "pct_change_from previous [] = []"
| "pct_change_from previous (x # xs) = np_minus (np_div x previous) 1 # pct_change_from x xs"

fun pct_change :: "real list \<Rightarrow> npfloat list" where
  "pct_change [] = []"
| "pct_change (x # xs) = NaN # pct_change_from x xs"

definition dropna :: "npfloat list \<Rightarrow> npfloat list" where
  "dropna xs = filter (\<lambda>x. x \<noteq> NaN) xs"

text \<open>\<open>(equity - running_max) / running_max * 100\<close>, elementwise.\<close>

definition drawdown_series :: "real list \<Rightarrow> npfloat list" where
  "drawdown_series equity' =
     map (\<lambda>(e, running_max). np_times (np_div (e - running_max) running_max) 100)
         (zip equity' (expanding_max equity'))"

section \<open>engine/backtest.py and analytics/metrics.py: maximum drawdown\<close>

text \<open>\<open>Backtester._calculate_max_drawdown\<close>, on the \<open>equity\<close> column of the curve.\<close>

definition calculate_max_drawdown :: "real list \<Rightarrow> npfloat" where
  "calculate_max_drawdown equity_col =
     (if equity_col = [] then Fin 0
      else np_abs (series_min (drawdown_series equity_col)))"

text \<open>\<open>PerformanceMetrics._calculate_max_drawdown_value\<close>: the same computation.\<close>

definition calculate_max_drawdown_value :: "real list \<Rightarrow> npfloat" where
  "calculate_max_drawdown_value equity_col =
     (if equity_col = [] then Fin 0
      else np_abs (series_min (drawdown_series equity_col)))"

section \<open>analytics/metrics.py: which figures are reported\<close>

text \<open>
  Each \<open>_calculate_*_metrics\<close> returns a dictionary that is either empty or holds a fixed
  set of keys. The model keeps the guard and the keys of each dictionary; of the values it
  keeps the profit factor, the one figure stated below. The equity curve is its \<open>equity\<close>
  column. \<open>trades_df\<close> is the frame that \<open>Portfolio.get_trades_df\<close> builds from a log, here
  the list of its trades: for an empty log that frame has no column, and the lookup of
  \<open>status\<close> in it raises \<open>KeyError\<close>. In \<open>_calculate_risk_metrics\<close> the call
  \<open>np.percentile(returns, 5)\<close> raises \<open>IndexError\<close> when \<open>returns\<close>, the percentage changes
  without their \<open>nan\<close> entries, is empty; the statistics before it yield \<open>nan\<close> or a guarded
  \<open>0.0\<close> there and raise nothing.
\<close>

definition calculate_return_metrics_keys :: "real list \<Rightarrow> string list" where
  "calculate_return_metrics_keys equity_col =
     (if equity_col = [] then []
      else [''total_return_pct'', ''cagr'', ''average_daily_return'', ''return_volatility''])"

definition calculate_risk_metrics_keys :: "real list \<Rightarrow> error + string list" where
  "calculate_risk_metrics_keys equity_col =
     (if equity_col = [] \<or> length equity_col < 2 then Inr []
      else
        (let returns = dropna (pct_change equity_col)
         in if returns = [] then Inl IndexError
            else Inr [''sharpe_ratio'', ''sortino_ratio'', ''calmar_ratio'', ''var_95'',
                      ''cvar_95'']))"

definition calculate_trade_metrics_keys :: "Trade list \<Rightarrow> error + string list" where
  "calculate_trade_metrics_keys trades_df =
     (if trades_df = [] then Inl KeyError
      else
        (let closed_trades = filter (\<lambda>t. status t = ''CLOSED'') trades_df
         in if closed_trades = [] then Inr []
            else Inr [''total_trades'', ''winning_trades'', ''losing_trades'', ''win_rate'',
                      ''average_win'', ''average_loss'', ''profit_factor'', ''expectancy'',
                      ''max_consecutive_wins'', ''max_consecutive_losses'', ''best_trade'',
                      ''worst_trade'', ''avg_trade_duration_minutes'']))"

definition calculate_drawdown_metrics_keys :: "real list \<Rightarrow> string list" where
  "calculate_drawdown_metrics_keys equity_col =
     (if equity_col = [] then []
      else [''max_drawdown_pct'', ''max_drawdown_duration_bars'', ''current_drawdown_pct'',
            ''recovery_factor''])"

text \<open>\<open>PerformanceMetrics.calculate_all_metrics\<close>: the four dictionaries merged, computed
  in the source's order (return, risk, trade, drawdown), so that an exception of the risk
  metrics leaves the call before the trade metrics are looked at; the trade metrics are
  skipped when \<open>trades_df\<close> is empty.\<close>

definition calculate_all_metrics_keys :: "real list \<Rightarrow> Trade list \<Rightarrow> error + string list" where
  "calculate_all_metrics_keys equity_col trades_df =
     (let return_keys = calculate_return_metrics_keys equity_col
      in case calculate_risk_metrics_keys equity_col of
           Inl e \<Rightarrow> Inl e
         | Inr risk_keys \<Rightarrow>
             (case (if trades_df \<noteq> [] then calculate_trade_metrics_keys trades_df
                    else Inr []) of
                Inl e \<Rightarrow> Inl e
              | Inr trade_keys \<Rightarrow>
                  Inr (return_keys @ risk_keys @ trade_keys
                       @ calculate_drawdown_metrics_keys equity_col)))"

text \<open>The value stored under \<open>profit_factor\<close> by \<open>_calculate_trade_metrics\<close>; \<open>None\<close> when
  the dictionary is empty.\<close>

definition trade_metrics_profit_factor :: "Trade list \<Rightarrow> error + npfloat option" where
  "trade_metrics_profit_factor trades_df =
     (if trades_df = [] then Inl KeyError
      else
        (let closed_trades = filter (\<lambda>t. status t = ''CLOSED'') trades_df
         in if closed_trades = [] then Inr None
            else
              (let wins = filter (\<lambda>t. pnl t > 0) closed_trades;
                   losses = filter (\<lambda>t. pnl t \<le> 0) closed_trades;
                   gross_profit' = (if wins \<noteq> [] then sum_list (map pnl wins) else 0);
                   gross_loss' = (if losses \<noteq> [] then \<bar>sum_list (map pnl losses)\<bar> else 0)
               in Inr (Some (if gross_loss' > 0 then Fin (gross_profit' / gross_loss')
                             else PInf)))))"

section \<open>The ledger invariant\<close>

text \<open>What the portfolio's operations keep true of the position and the log: without a
  position no trade of the log is \<open>OPEN\<close>; with a position the last trade is \<open>OPEN\<close> and
  it is the only one.\<close>

definition ledger_inv :: "Portfolio \<Rightarrow> bool" where
  "ledger_inv s \<longleftrightarrow>
     (case current_position s of
        None \<Rightarrow> get_open_trades s = []
      | Some p \<Rightarrow> trades s \<noteq> [] \<and> status (last (trades s)) = ''OPEN''
                  \<and> filter (\<lambda>t. status t = ''OPEN'') (butlast (trades s)) = [])"

section \<open>Example states\<close>

text \<open>A portfolio that holds a position although its log is empty.\<close>

definition stranded_portfolio :: Portfolio where
  "stranded_portfolio =
     (Portfolio_init 1000 (1/1000) 1 False)
       \<lparr> current_position :=
           Some \<lparr> pos_position_type = LONG, pos_entry_time = 0, pos_entry_price = 100,
                  pos_quantity = 2, current_price = 100 \<rparr> \<rparr>"

text \<open>A portfolio of capital 100 without commission, and the same one after it has bought
  one unit at 100.\<close>

definition small_portfolio :: Portfolio where
  "small_portfolio = Portfolio_init 100 0 1 False"

definition small_portfolio_long :: Portfolio where
  "small_portfolio_long =
     small_portfolio
       \<lparr> current_position :=
           Some \<lparr> pos_position_type = LONG, pos_entry_time = 0, pos_entry_price = 100,
                  pos_quantity = 1, current_price = 100 \<rparr>,
         cash := 0,
         trades :=
           [\<lparr> entry_time = 0, exit_time = None, position_type = LONG, entry_price = 100,
              exit_price = 0, quantity = 1, commission = 0, pnl = 0, pnl_percent = 0,
              status = ''OPEN'' \<rparr>] \<rparr>"

text \<open>The scenario of the specification: capital 10000, no commission, no slippage, two
  bars with closes 100 and 110 and the signals BUY and SELL.\<close>

definition scenario_backtester :: Backtester where
  "scenario_backtester =
     \<lparr> bt_allow_short = False, slippage = 0, portfolio = Portfolio_init 10000 0 1 False \<rparr>"

definition scenario_rows :: "Row list" where
  "scenario_rows =
     [\<lparr> row_time = 1, close = 100, signal = Some 1 \<rparr>,
      \<lparr> row_time = 2, close = 110, signal = Some (- 1) \<rparr>]"

text \<open>A backtester with a slippage of one percent, and the portfolio after it has processed
  a BUY at a close of 100: 100 units bought at 101 and marked at 100.\<close>

definition slippage_backtester :: Backtester where
  "slippage_backtester =
     \<lparr> bt_allow_short = False, slippage = 1/100, portfolio = Portfolio_init 10100 0 1 False \<rparr>"

definition slippage_portfolio_long :: Portfolio where
  "slippage_portfolio_long =
     (Portfolio_init 10100 0 1 False)
       \<lparr> cash := 0,
         equity := 9900,
         current_position :=
           Some \<lparr> pos_position_type = LONG, pos_entry_time = 1, pos_entry_price = 101,
                  pos_quantity = 100, current_price = 100 \<rparr>,
         trades :=
           [\<lparr> entry_time = 1, exit_time = None, position_type = LONG, entry_price = 101,
              exit_price = 0, quantity = 100, commission = 0, pnl = 0, pnl_percent = 0,
              status = ''OPEN'' \<rparr>],
         equity_curve := [9900],
         timestamps := [1] \<rparr>"

text \<open>A portfolio whose log holds two closed trades: a win of 5 and a trade that broke
  even.\<close>

definition breakeven_portfolio :: Portfolio where
  "breakeven_portfolio =
     (Portfolio_init 100 0 1 False)
       \<lparr> cash := 105,
         trades :=
           [\<lparr> entry_time = 1, exit_time = Some 2, position_type = LONG, entry_price = 100,
              exit_price = 105, quantity = 1, commission = 0, pnl = 5, pnl_percent = 5,
              status = ''CLOSED'' \<rparr>,
            \<lparr> entry_time = 3, exit_time = Some 4, position_type = LONG, entry_price = 105,
              exit_price = 105, quantity = 1, commission = 0, pnl = 0, pnl_percent = 0,
              status = ''CLOSED'' \<rparr>] \<rparr>"

text \<open>A portfolio whose log holds a win of 5 and a loss of 2.\<close>

definition losing_portfolio :: Portfolio where
  "losing_portfolio =
     (Portfolio_init 100 0 1 False)
       \<lparr> cash := 103,
         trades :=
           [\<lparr> entry_time = 1, exit_time = Some 2, position_type = LONG, entry_price = 100,
              exit_price = 105, quantity = 1, commission = 0, pnl = 5, pnl_percent = 5,
              status = ''CLOSED'' \<rparr>,
            \<lparr> entry_time = 3, exit_time = Some 4, position_type = LONG, entry_price = 105,
              exit_price = 103, quantity = 1, commission = 0, pnl = - 2,
              pnl_percent = - (200 / 105), status = ''CLOSED'' \<rparr>] \<rparr>"

section \<open>Portfolio.update\<close>

lemma small_portfolio_buys:
  "open_position small_portfolio 0 100 LONG None = Inr (True, small_portfolio_long)"
  by (simp add: open_position_def auto_quantity_def small_portfolio_def
      small_portfolio_long_def Portfolio_init_def Let_def)

lemma update_equity_long:
  assumes "current_position s = Some p" and "pos_position_type p = LONG"
  shows "equity (update s timestamp price)
           = cash s + (price - pos_entry_price p) * pos_quantity p + pos_quantity p * price"
  using assms by (simp add: update_def update_price_def unrealized_pnl_def Let_def)

lemma update_equity_short:
  assumes "current_position s = Some p" and "pos_position_type p = SHORT"
  shows "equity (update s timestamp price) = cash s + pos_entry_price p * pos_quantity p"
  using assms
  by (simp add: update_def update_price_def unrealized_pnl_def Let_def algebra_simps)

lemma update_appends:
  "equity_curve (update s timestamp price) = equity_curve s @ [equity (update s timestamp price)]
   \<and> timestamps (update s timestamp price) = timestamps s @ [timestamp]"
  by (simp add: update_def Let_def split: option.splits)

text \<open>
  C1. With a LONG position of quantity \<open>q\<close> open, \<open>update(time, price)\<close> sets the equity to
  \<open>cash + q \<times> price\<close> and appends time and equity to the curve. The code does the second
  and misses the first: the portfolio that bought one unit at 100 with all of its capital
  of 100 has cash 0, so that marked at 110 its equity is 110; \<open>update\<close> adds the unrealized
  P&L of 10 on top of the position's value and records 120.
\<close>

theorem update_long_double_counts:
  "current_position small_portfolio_long \<noteq> None
   \<and> cash small_portfolio_long + 1 * 110 = 110
   \<and> equity (update small_portfolio_long 1 110) = 120
   \<and> equity_curve (update small_portfolio_long 1 110) = [120]
   \<and> timestamps (update small_portfolio_long 1 110) = [1]"
  by (simp add: update_def update_price_def unrealized_pnl_def Let_def
      small_portfolio_long_def small_portfolio_def Portfolio_init_def)

section \<open>Portfolio.open_position\<close>

text \<open>
  C2. If \<open>open_position\<close> is called with a quantity whose cost
  \<open>quantity \<times> price + commission\<close> exceeds the cash, it returns \<open>False\<close> and the portfolio
  after the call is the portfolio before it: cash, position and trade log are unchanged.
\<close>

theorem open_position_insufficient_funds:
  assumes "q * price + q * price * commission_rate s > cash s"
  shows "open_position s timestamp price ptype (Some q) = Inr (False, s)"
  using assms by (simp add: open_position_def Let_def)

theorem open_position_insufficient_funds_witness:
  "(200::real) * 100 + 200 * 100 * commission_rate (Portfolio_init 10000 (1/1000) 1 False)
      > cash (Portfolio_init 10000 (1/1000) 1 False) \<and>
   open_position (Portfolio_init 10000 (1/1000) 1 False) 0 100 LONG (Some 200)
     = Inr (False, Portfolio_init 10000 (1/1000) 1 False)"
  using open_position_insufficient_funds
          [of "Portfolio_init 10000 (1/1000) 1 False" 200 100 0 LONG]
  by (simp add: Portfolio_init_def)

lemma auto_quantity_ok:
  assumes "price \<noteq> 0" and "commission_rate s \<noteq> - 1"
  shows "auto_quantity s price
           = Inr (cash s * position_size s / (price * (1 + commission_rate s)))"
  using assms by (simp add: auto_quantity_def Let_def add_eq_0_iff mult.commute)

text \<open>
  C9, as stated: with cash \<open>\<ge> 0\<close>, price \<open>> 0\<close>, position size \<open>\<le> 1\<close>, no open position and
  an allowed side, an auto-sized open always succeeds. A portfolio whose commission rate is
  \<open>-1\<close> meets every condition, and the call raises \<open>ZeroDivisionError\<close> when it divides by
  \<open>1 + commission_rate\<close>.
\<close>

theorem auto_sized_open_raises:
  "0 \<le> cash (Portfolio_init 1000 (- 1) 1 False)
   \<and> position_size (Portfolio_init 1000 (- 1) 1 False) \<le> 1
   \<and> current_position (Portfolio_init 1000 (- 1) 1 False) = None
   \<and> open_position (Portfolio_init 1000 (- 1) 1 False) 0 10 LONG None = Inl ZeroDivisionError"
  by (simp add: open_position_def auto_quantity_def Portfolio_init_def)

text \<open>
  C9, amended: with cash \<open>\<ge> 0\<close>, price \<open>> 0\<close>, position size \<open>\<le> 1\<close>, no open position, an
  allowed side and a commission rate other than \<open>-1\<close>, an auto-sized open succeeds. Its
  quantity is \<open>(cash \<times> position_size) / (price \<times> (1 + commission_rate))\<close>, the capital it
  requires is \<open>cash \<times> position_size\<close>, which does not exceed the cash, and the cash is
  debited by exactly that amount.
\<close>

theorem auto_sized_open_succeeds:
  assumes "0 \<le> cash s" and "0 < price" and "position_size s \<le> 1"
    and "current_position s = None"
    and "ptype = SHORT \<longrightarrow> allow_short s"
    and "commission_rate s \<noteq> - 1"
  shows "\<exists>s'. open_position s timestamp price ptype None = Inr (True, s') \<and>
           (\<exists>p. current_position s' = Some p \<and>
              pos_quantity p = cash s * position_size s / (price * (1 + commission_rate s)) \<and>
              pos_quantity p * price + pos_quantity p * price * commission_rate s
                = cash s * position_size s) \<and>
           cash s * position_size s \<le> cash s \<and>
           cash s' = cash s - cash s * position_size s"
proof -
  let ?q = "cash s * position_size s / (price * (1 + commission_rate s))"
  have nz: "1 + commission_rate s \<noteq> 0"
    using assms(6) by (simp add: add_eq_0_iff)
  have pz: "price \<noteq> 0"
    using assms(2) by simp
  have aq: "auto_quantity s price = Inr ?q"
    using pz assms(6) by (rule auto_quantity_ok)
  have "\<And>x::real. x * price + x * price * commission_rate s
                     = x * (price * (1 + commission_rate s))"
    by (simp add: algebra_simps)
  then have "?q * price + ?q * price * commission_rate s
               = ?q * (price * (1 + commission_rate s))"
    by blast
  also have "\<dots> = cash s * position_size s"
    using nz pz by simp
  finally have req: "?q * price + ?q * price * commission_rate s = cash s * position_size s" .
  have le: "cash s * position_size s \<le> cash s"
    using assms(1,3) by (simp add: mult_left_le)
  show ?thesis
    using assms(4,5) aq req le by (simp add: open_position_def Let_def)
qed

theorem auto_sized_open_succeeds_witness:
  "\<exists>s'. open_position (Portfolio_init 10000 (1/1000) (1/2) False) 0 100 LONG None
            = Inr (True, s')
        \<and> (\<exists>p. current_position s' = Some p \<and> pos_quantity p = 5000 / (100 * (1 + 1/1000)))
        \<and> cash s' = 5000"
  using auto_sized_open_succeeds [of "Portfolio_init 10000 (1/1000) (1/2) False" 100 LONG 0]
  by (auto simp: Portfolio_init_def mult.commute)

section \<open>Portfolio.close_position\<close>

text \<open>
  C10. If \<open>close_position\<close> is called while a position is open but the log is empty or its
  last entry is not \<open>OPEN\<close>, the call returns \<open>True\<close> and the only change to the portfolio
  is that the position is cleared: no cash is credited and no trade is touched.
\<close>

theorem close_position_without_open_trade:
  assumes "current_position s = Some p"
    and "trades s = [] \<or> status (last (trades s)) \<noteq> ''OPEN''"
  shows "close_position s timestamp price = (True, s\<lparr> current_position := None \<rparr>)"
  using assms by (auto simp: close_position_def Let_def)

theorem close_position_without_open_trade_witness:
  "current_position stranded_portfolio \<noteq> None \<and> trades stranded_portfolio = [] \<and>
   close_position stranded_portfolio 5 120 = (True, Portfolio_init 1000 (1/1000) 1 False) \<and>
   cash (snd (close_position stranded_portfolio 5 120)) = cash stranded_portfolio"
  using close_position_without_open_trade [of stranded_portfolio _ 5 120]
  by (simp add: stranded_portfolio_def Portfolio_init_def)

section \<open>What the operations leave unchanged\<close>

lemma open_position_frame:
  assumes "open_position s timestamp price ptype q = Inr (b, s')"
  shows "timestamps s' = timestamps s \<and> equity_curve s' = equity_curve s
         \<and> commission_rate s' = commission_rate s"
  using assms
  by (auto simp: open_position_def Let_def split: if_splits sum.splits)

lemma close_position_frame:
  "timestamps (snd (close_position s timestamp price)) = timestamps s
   \<and> equity_curve (snd (close_position s timestamp price)) = equity_curve s
   \<and> commission_rate (snd (close_position s timestamp price)) = commission_rate s"
  by (simp add: close_position_def Let_def split: option.splits)

lemma process_signal_frame:
  assumes "process_signal bt timestamp sig price = Inr pf'"
  shows "timestamps pf' = timestamps (portfolio bt)
         \<and> equity_curve pf' = equity_curve (portfolio bt)
         \<and> commission_rate pf' = commission_rate (portfolio bt)"
proof -
  have open_case: "timestamps pf' = timestamps pf1 \<and> equity_curve pf' = equity_curve pf1
                   \<and> commission_rate pf' = commission_rate pf1"
    if "(case open_position pf1 timestamp price ptype None of
           Inl e \<Rightarrow> Inl e | Inr r \<Rightarrow> Inr (snd r)) = Inr pf'" for pf1 ptype
  proof (cases "open_position pf1 timestamp price ptype None")
    case (Inl e)
    with that show ?thesis by simp
  next
    case (Inr r)
    with that have "open_position pf1 timestamp price ptype None = Inr (fst r, pf')"
      by (cases r) simp
    then show ?thesis by (rule open_position_frame)
  qed
  show ?thesis
    using assms close_position_frame [of "portfolio bt" timestamp price]
    by (auto simp: process_signal_def Let_def split: if_splits option.splits
             dest!: open_case)
qed

lemma process_row_frame:
  assumes "process_row bt row = Inr bt'"
  shows "timestamps (portfolio bt') = timestamps (portfolio bt) @ [row_time row]
         \<and> length (equity_curve (portfolio bt')) = Suc (length (equity_curve (portfolio bt)))
         \<and> commission_rate (portfolio bt') = commission_rate (portfolio bt)
         \<and> slippage bt' = slippage bt \<and> bt_allow_short bt' = bt_allow_short bt"
proof -
  obtain pf where pf: "process_signal bt (row_time row) (row_signal row)
                         (execution_price bt (row_signal row) (close row)) = Inr pf"
    and bt': "bt' = bt\<lparr> portfolio := update pf (row_time row) (close row) \<rparr>"
    using assms by (auto simp: process_row_def Let_def split: sum.splits)
  have "commission_rate (update pf (row_time row) (close row)) = commission_rate pf"
    by (simp add: update_def Let_def split: option.splits)
  then show ?thesis
    using process_signal_frame [OF pf] update_appends [of pf "row_time row" "close row"] bt'
    by simp
qed

lemma execute_rows_frame:
  assumes "execute_rows bt rows = Inr bt'"
  shows "timestamps (portfolio bt') = timestamps (portfolio bt) @ map row_time rows
         \<and> length (equity_curve (portfolio bt'))
             = length (equity_curve (portfolio bt)) + length rows"
  using assms
proof (induction rows arbitrary: bt)
  case Nil
  then show ?case by simp
next
  case (Cons row rows)
  then obtain bt1 where step: "process_row bt row = Inr bt1"
    and rest: "execute_rows bt1 rows = Inr bt'"
    by (auto split: sum.splits)
  show ?case
    using Cons.IH [OF rest] process_row_frame [OF step] by simp
qed


section \<open>When the loop raises nothing\<close>

lemma open_position_returns:
  assumes "price \<noteq> 0" and "commission_rate s \<noteq> - 1"
  shows "\<exists>r. open_position s timestamp price ptype None = Inr r"
  using assms by (auto simp: open_position_def auto_quantity_ok Let_def)

lemma process_signal_returns:
  assumes "price \<noteq> 0" and "commission_rate (portfolio bt) \<noteq> - 1"
  shows "\<exists>pf. process_signal bt timestamp sig price = Inr pf"
proof -
  have "\<exists>pf. (case open_position pf1 timestamp price ptype None of
                 Inl e \<Rightarrow> Inl e | Inr r \<Rightarrow> Inr (snd r)) = Inr pf"
    if "commission_rate pf1 = commission_rate (portfolio bt)" for pf1 ptype
    using open_position_returns [of price pf1 timestamp ptype] assms that by auto
  then show ?thesis
    using close_position_frame [of "portfolio bt" timestamp price]
    by (simp add: process_signal_def Let_def split: option.splits)
qed

lemma execution_price_nonzero:
  assumes "0 < close_price" and "0 \<le> slippage bt" and "slippage bt < 1"
  shows "execution_price bt sig close_price \<noteq> 0"
  using assms by (simp add: execution_price_def)

lemma process_row_returns:
  assumes "0 < close row" and "0 \<le> slippage bt" and "slippage bt < 1"
    and "commission_rate (portfolio bt) \<noteq> - 1"
  shows "\<exists>bt'. process_row bt row = Inr bt'"
proof -
  obtain pf where "process_signal bt (row_time row) (row_signal row)
                     (execution_price bt (row_signal row) (close row)) = Inr pf"
    using process_signal_returns [OF execution_price_nonzero [OF assms(1-3)] assms(4)]
    by blast
  then show ?thesis by (simp add: process_row_def Let_def)
qed

lemma execute_rows_returns:
  assumes "\<forall>row \<in> set rows. 0 < close row" and "0 \<le> slippage bt" and "slippage bt < 1"
    and "commission_rate (portfolio bt) \<noteq> - 1"
  shows "\<exists>bt'. execute_rows bt rows = Inr bt'"
  using assms
proof (induction rows arbitrary: bt)
  case Nil
  then show ?case by simp
next
  case (Cons row rows)
  then obtain bt1 where step: "process_row bt row = Inr bt1"
    using process_row_returns [of row bt] by auto
  have "\<exists>bt'. execute_rows bt1 rows = Inr bt'"
    using Cons.prems process_row_frame [OF step] by (intro Cons.IH) auto
  then show ?case using step by simp
qed


section \<open>One equity sample per bar\<close>

lemma execute_trades_frame:
  assumes "execute_trades bt rows = Inr bt'"
  shows "timestamps (portfolio bt') = timestamps (portfolio bt) @ map row_time rows
         \<and> length (equity_curve (portfolio bt'))
             = length (equity_curve (portfolio bt)) + length rows"
proof -
  obtain bt1 where loop: "execute_rows bt rows = Inr bt1"
    and fin: "bt' = bt1 \<or>
              bt' = bt1\<lparr> portfolio := snd (close_position (portfolio bt1)
                                            (row_time (last rows)) (close (last rows))) \<rparr>"
    using assms by (auto simp: execute_trades_def split: sum.splits if_splits)
  from fin show ?thesis
    using execute_rows_frame [OF loop]
      close_position_frame [of "portfolio bt1" "row_time (last rows)" "close (last rows)"]
    by auto
qed

lemma run_signals_returns:
  assumes "\<forall>row \<in> set rows. 0 < close row" and "0 \<le> slippage bt" and "slippage bt < 1"
    and "commission_rate (portfolio bt) \<noteq> - 1"
  shows "\<exists>bt'. run_signals bt rows = Inr bt'"
proof -
  let ?bt0 = "bt\<lparr> portfolio := reset (portfolio bt) \<rparr>"
  have "\<exists>bt1. execute_rows ?bt0 rows = Inr bt1"
    using assms by (intro execute_rows_returns) (simp_all add: reset_def)
  then obtain bt1 where loop: "execute_rows ?bt0 rows = Inr bt1" ..
  have "current_position (portfolio bt1) = None" if "rows = []"
    using loop that by (auto simp: reset_def)
  then show ?thesis
    using loop by (auto simp: run_signals_def execute_trades_def)
qed

text \<open>
  C6. When \<open>_execute_trades\<close> finishes, it has appended to the equity curve exactly one
  sample per row, and to the timestamps the rows' timestamps in their order; in a run,
  which starts from the reset portfolio, the curve has as many samples as there are rows
  and its timestamps are the rows' timestamps. With positive closes, a slippage in
  \<open>[0, 1)\<close> and a commission rate other than \<open>-1\<close> the run does finish.
\<close>

theorem equity_curve_one_sample_per_bar:
  "(\<forall>bt'. execute_trades bt rows = Inr bt' \<longrightarrow>
       timestamps (portfolio bt') = timestamps (portfolio bt) @ map row_time rows
       \<and> length (equity_curve (portfolio bt'))
           = length (equity_curve (portfolio bt)) + length rows)
   \<and> (\<forall>bt'. run_signals bt rows = Inr bt' \<longrightarrow>
         timestamps (portfolio bt') = map row_time rows
         \<and> length (equity_curve (portfolio bt')) = length rows)
   \<and> ((\<forall>row \<in> set rows. 0 < close row) \<and> 0 \<le> slippage bt \<and> slippage bt < 1
        \<and> commission_rate (portfolio bt) \<noteq> - 1
      \<longrightarrow> (\<exists>bt'. run_signals bt rows = Inr bt'))"
proof -
  have 1: "timestamps (portfolio bt') = timestamps (portfolio bt) @ map row_time rows
       \<and> length (equity_curve (portfolio bt'))
           = length (equity_curve (portfolio bt)) + length rows"
    if "execute_trades bt rows = Inr bt'" for bt'
    using that by (rule execute_trades_frame)
  have 2: "timestamps (portfolio bt') = map row_time rows
         \<and> length (equity_curve (portfolio bt')) = length rows"
    if "run_signals bt rows = Inr bt'" for bt'
    using execute_trades_frame [OF that [unfolded run_signals_def]]
    by (simp add: reset_def)
  show ?thesis
    using 1 2 run_signals_returns [of rows bt] by blast
qed

theorem equity_curve_one_sample_per_bar_witness:
  "\<exists>bt'. run_signals scenario_backtester scenario_rows = Inr bt'
     \<and> timestamps (portfolio bt') = [1, 2]
     \<and> length (equity_curve (portfolio bt')) = 2"
  using equity_curve_one_sample_per_bar [of scenario_backtester scenario_rows]
  by (auto simp: scenario_backtester_def scenario_rows_def Portfolio_init_def)

text \<open>The scenario of the specification, run: one closed LONG trade from 100 to 110 with a
  P&L of 1000, the equity curve 10000, 11000 and a final equity of 11000.\<close>

lemma scenario_run:
  "run_signals scenario_backtester scenario_rows
   = Inr (scenario_backtester\<lparr> portfolio :=
        (Portfolio_init 10000 0 1 False)
          \<lparr> cash := 11000,
            equity := 11000,
            trades :=
              [\<lparr> entry_time = 1, exit_time = Some 2, position_type = LONG, entry_price = 100,
                 exit_price = 110, quantity = 100, commission = 0, pnl = 1000,
                 pnl_percent = 10, status = ''CLOSED'' \<rparr>],
            equity_curve := [10000, 11000],
            timestamps := [1, 2] \<rparr> \<rparr>)"
  by (simp add: run_signals_def execute_trades_def scenario_backtester_def scenario_rows_def
      Portfolio_init_def reset_def process_row_def process_signal_def execution_price_def
      row_signal_def open_position_def auto_quantity_def close_position_def close_trade_def
      update_def update_price_def unrealized_pnl_def Let_def)

section \<open>Opening and closing\<close>

lemma open_position_success:
  assumes "open_position s timestamp price ptype q = Inr (True, s')"
  shows "current_position s = None \<and> current_position s' \<noteq> None
         \<and> (\<exists>tr. trades s' = trades s @ [tr] \<and> status tr = ''OPEN''
                 \<and> entry_price tr = price \<and> entry_time tr = timestamp)
         \<and> (\<exists>p. current_position s' = Some p \<and> pos_entry_price p = price)"
  using assms
  by (auto simp: open_position_def Let_def split: if_splits sum.splits)

lemma open_position_declined:
  assumes "open_position s timestamp price ptype q = Inr (False, s')"
  shows "s' = s"
  using assms
  by (auto simp: open_position_def Let_def split: if_splits sum.splits)

lemma ledger_inv_reset: "ledger_inv (reset s)"
  by (simp add: ledger_inv_def reset_def get_open_trades_def)

lemma status_close_trade [simp]: "status (close_trade tr t price c) = ''CLOSED''"
  by (simp add: close_trade_def)

lemma ledger_inv_open_trades:
  assumes "ledger_inv s"
  shows "get_open_trades s = (case current_position s of None \<Rightarrow> [] | Some p \<Rightarrow> [last (trades s)])"
proof (cases "current_position s")
  case None
  with assms show ?thesis by (simp add: ledger_inv_def)
next
  case (Some p)
  with assms have ne: "trades s \<noteq> []" and op: "status (last (trades s)) = ''OPEN''"
    and rest: "filter (\<lambda>t. status t = ''OPEN'') (butlast (trades s)) = []"
    by (simp_all add: ledger_inv_def)
  have "filter (\<lambda>t. status t = ''OPEN'') (butlast (trades s) @ [last (trades s)])
          = [last (trades s)]"
    using op rest by simp
  then show ?thesis using ne Some by (simp add: get_open_trades_def)
qed

lemma ledger_inv_open_position:
  assumes "ledger_inv s" and "open_position s timestamp price ptype q = Inr (b, s')"
  shows "ledger_inv s'"
proof (cases b)
  case False
  with assms show ?thesis by (auto dest: open_position_declined)
next
  case True
  with assms(2) have "open_position s timestamp price ptype q = Inr (True, s')"
    by simp
  from open_position_success [OF this]
  have *: "current_position s = None" "current_position s' \<noteq> None"
    "\<exists>tr. trades s' = trades s @ [tr] \<and> status tr = ''OPEN''"
    by blast+
  then obtain tr where tr: "trades s' = trades s @ [tr]" "status tr = ''OPEN''" by blast
  have "get_open_trades s = []"
    using assms(1) *(1) by (simp add: ledger_inv_def)
  then show ?thesis
    using * tr by (auto simp: ledger_inv_def get_open_trades_def)
qed

lemma close_position_closes_last:
  assumes "ledger_inv s" and "current_position s = Some p"
  shows "fst (close_position s timestamp price)
         \<and> trades (snd (close_position s timestamp price))
             = butlast (trades s) @
               [close_trade (last (trades s)) timestamp price
                  (pos_quantity p * price * commission_rate s)]
         \<and> get_open_trades (snd (close_position s timestamp price)) = []
         \<and> current_position (snd (close_position s timestamp price)) = None"
  using assms
  by (simp add: ledger_inv_def close_position_def Let_def get_open_trades_def)

lemma ledger_inv_close_position:
  assumes "ledger_inv s"
  shows "ledger_inv (snd (close_position s timestamp price))"
proof (cases "current_position s")
  case None
  with assms show ?thesis by (simp add: close_position_def)
next
  case (Some p)
  from close_position_closes_last [OF assms Some, of timestamp price]
  show ?thesis by (simp add: ledger_inv_def)
qed

lemma ledger_inv_update:
  assumes "ledger_inv s"
  shows "ledger_inv (update s timestamp price)"
  using assms
  by (auto simp: ledger_inv_def update_def Let_def get_open_trades_def split: option.splits)

lemma ledger_inv_process_signal:
  assumes "ledger_inv (portfolio bt)" and "process_signal bt timestamp sig price = Inr pf'"
  shows "ledger_inv pf'"
proof -
  have open_case: "ledger_inv pf'"
    if "ledger_inv pf1"
      and "(case open_position pf1 timestamp price ptype None of
              Inl e \<Rightarrow> Inl e | Inr r \<Rightarrow> Inr (snd r)) = Inr pf'" for pf1 ptype
  proof (cases "open_position pf1 timestamp price ptype None")
    case (Inl e)
    with that show ?thesis by simp
  next
    case (Inr r)
    with that have "open_position pf1 timestamp price ptype None = Inr (fst r, pf')"
      by (cases r) simp
    with that(1) show ?thesis by (rule ledger_inv_open_position)
  qed
  show ?thesis
    using assms ledger_inv_close_position [OF assms(1), of timestamp price]
    by (auto simp: process_signal_def Let_def split: if_splits option.splits
             intro: open_case)
qed

lemma ledger_inv_process_row:
  assumes "ledger_inv (portfolio bt)" and "process_row bt row = Inr bt'"
  shows "ledger_inv (portfolio bt')"
proof -
  obtain pf where pf: "process_signal bt (row_time row) (row_signal row)
                         (execution_price bt (row_signal row) (close row)) = Inr pf"
    and bt': "bt' = bt\<lparr> portfolio := update pf (row_time row) (close row) \<rparr>"
    using assms(2) by (auto simp: process_row_def Let_def split: sum.splits)
  show ?thesis
    using ledger_inv_update [OF ledger_inv_process_signal [OF assms(1) pf]] bt' by simp
qed

lemma ledger_inv_execute_rows:
  assumes "ledger_inv (portfolio bt)" and "execute_rows bt rows = Inr bt'"
  shows "ledger_inv (portfolio bt')"
  using assms
proof (induction rows arbitrary: bt)
  case Nil
  then show ?case by simp
next
  case (Cons row rows)
  then obtain bt1 where step: "process_row bt row = Inr bt1"
    and rest: "execute_rows bt1 rows = Inr bt'"
    by (auto split: sum.splits)
  show ?case
    using Cons.IH [OF ledger_inv_process_row [OF Cons.prems(1) step] rest] .
qed

text \<open>
  C7. After every prefix of the rows of a run that starts from the reset portfolio, the log
  holds at most one \<open>OPEN\<close> trade, and exactly one if and only if a position is open. When a
  position is open, that trade is the last of the log, and a call of \<open>close_position\<close>
  returns \<open>True\<close> and changes exactly this last trade: every trade before it stays as it
  is, and the last one keeps its entry time, side, entry price and quantity, gets the
  status \<open>CLOSED\<close>, the exit time and price of the call, the sum of both commissions,
  the P&L of its side less both commissions and, for a positive entry price, the P&L in
  percent of the entry price; no \<open>OPEN\<close> trade is left and the position is cleared. The same bound holds inside the next iteration, once the signal has been
  processed and before \<open>update\<close> runs. \<open>open_position\<close> returns \<open>True\<close> only from a
  portfolio without a position.
\<close>

theorem at_most_one_open_trade:
  assumes "execute_rows (bt\<lparr> portfolio := reset (portfolio bt) \<rparr>) (take n rows) = Inr bt'"
  shows "length (get_open_trades (portfolio bt')) \<le> 1
    \<and> (length (get_open_trades (portfolio bt')) = 1
         \<longleftrightarrow> current_position (portfolio bt') \<noteq> None)
    \<and> (\<forall>p timestamp price. current_position (portfolio bt') = Some p \<longrightarrow>
          get_open_trades (portfolio bt') = [last (trades (portfolio bt'))]
          \<and> status (last (trades (portfolio bt'))) = ''OPEN''
          \<and> fst (close_position (portfolio bt') timestamp price)
          \<and> trades (snd (close_position (portfolio bt') timestamp price))
              = butlast (trades (portfolio bt')) @
                [close_trade (last (trades (portfolio bt'))) timestamp price
                   (pos_quantity p * price * commission_rate (portfolio bt'))]
          \<and> length (trades (snd (close_position (portfolio bt') timestamp price)))
              = length (trades (portfolio bt'))
          \<and> butlast (trades (snd (close_position (portfolio bt') timestamp price)))
              = butlast (trades (portfolio bt'))
          \<and> status (last (trades (snd (close_position (portfolio bt') timestamp price))))
              = ''CLOSED''
          \<and> entry_time (last (trades (snd (close_position (portfolio bt') timestamp price))))
              = entry_time (last (trades (portfolio bt')))
          \<and> position_type (last (trades (snd (close_position (portfolio bt') timestamp price))))
              = position_type (last (trades (portfolio bt')))
          \<and> entry_price (last (trades (snd (close_position (portfolio bt') timestamp price))))
              = entry_price (last (trades (portfolio bt')))
          \<and> quantity (last (trades (snd (close_position (portfolio bt') timestamp price))))
              = quantity (last (trades (portfolio bt')))
          \<and> exit_time (last (trades (snd (close_position (portfolio bt') timestamp price))))
              = Some timestamp
          \<and> exit_price (last (trades (snd (close_position (portfolio bt') timestamp price))))
              = price
          \<and> commission (last (trades (snd (close_position (portfolio bt') timestamp price))))
              = commission (last (trades (portfolio bt')))
                + pos_quantity p * price * commission_rate (portfolio bt')
          \<and> pnl (last (trades (snd (close_position (portfolio bt') timestamp price))))
              = (if position_type (last (trades (portfolio bt'))) = LONG
                 then (price - entry_price (last (trades (portfolio bt'))))
                        * quantity (last (trades (portfolio bt')))
                 else (entry_price (last (trades (portfolio bt'))) - price)
                        * quantity (last (trades (portfolio bt'))))
                - commission (last (trades (portfolio bt')))
                - pos_quantity p * price * commission_rate (portfolio bt')
          \<and> pnl_percent (last (trades (snd (close_position (portfolio bt') timestamp price))))
              = (if entry_price (last (trades (portfolio bt'))) > 0
                 then (if position_type (last (trades (portfolio bt'))) = LONG
                       then (price - entry_price (last (trades (portfolio bt'))))
                              / entry_price (last (trades (portfolio bt'))) * 100
                       else (entry_price (last (trades (portfolio bt'))) - price)
                              / entry_price (last (trades (portfolio bt'))) * 100)
                 else pnl_percent (last (trades (portfolio bt'))))
          \<and> get_open_trades (snd (close_position (portfolio bt') timestamp price)) = []
          \<and> current_position (snd (close_position (portfolio bt') timestamp price)) = None)
    \<and> (\<forall>timestamp sig price pf. process_signal bt' timestamp sig price = Inr pf \<longrightarrow>
          length (get_open_trades pf) \<le> 1
          \<and> (length (get_open_trades pf) = 1 \<longleftrightarrow> current_position pf \<noteq> None))
    \<and> (\<forall>s timestamp price ptype q s'.
          open_position s timestamp price ptype q = Inr (True, s') \<longrightarrow>
          current_position s = None)"
proof -
  let ?pf = "portfolio bt'"
  have inv: "ledger_inv ?pf"
    using ledger_inv_execute_rows [OF _ assms] by (simp add: ledger_inv_reset)
  have mid: "length (get_open_trades pf) \<le> 1
          \<and> (length (get_open_trades pf) = 1 \<longleftrightarrow> current_position pf \<noteq> None)"
    if "process_signal bt' timestamp sig price = Inr pf" for timestamp sig price pf
    using ledger_inv_open_trades [OF ledger_inv_process_signal [OF inv that]]
    by (simp split: option.splits)
  note ot = ledger_inv_open_trades [OF inv]
  have 1: "length (get_open_trades ?pf) \<le> 1"
    using ot by (simp split: option.splits)
  have 2: "length (get_open_trades ?pf) = 1 \<longleftrightarrow> current_position ?pf \<noteq> None"
    using ot by (simp split: option.splits)
  have 3: "get_open_trades ?pf = [last (trades ?pf)]
          \<and> status (last (trades ?pf)) = ''OPEN''
          \<and> fst (close_position ?pf timestamp price)
          \<and> trades (snd (close_position ?pf timestamp price))
              = butlast (trades ?pf) @
                [close_trade (last (trades ?pf)) timestamp price
                   (pos_quantity p * price * commission_rate ?pf)]
          \<and> length (trades (snd (close_position ?pf timestamp price))) = length (trades ?pf)
          \<and> butlast (trades (snd (close_position ?pf timestamp price))) = butlast (trades ?pf)
          \<and> status (last (trades (snd (close_position ?pf timestamp price)))) = ''CLOSED''
          \<and> entry_time (last (trades (snd (close_position ?pf timestamp price))))
              = entry_time (last (trades ?pf))
          \<and> position_type (last (trades (snd (close_position ?pf timestamp price))))
              = position_type (last (trades ?pf))
          \<and> entry_price (last (trades (snd (close_position ?pf timestamp price))))
              = entry_price (last (trades ?pf))
          \<and> quantity (last (trades (snd (close_position ?pf timestamp price))))
              = quantity (last (trades ?pf))
          \<and> exit_time (last (trades (snd (close_position ?pf timestamp price))))
              = Some timestamp
          \<and> exit_price (last (trades (snd (close_position ?pf timestamp price)))) = price
          \<and> commission (last (trades (snd (close_position ?pf timestamp price))))
              = commission (last (trades ?pf)) + pos_quantity p * price * commission_rate ?pf
          \<and> pnl (last (trades (snd (close_position ?pf timestamp price))))
              = (if position_type (last (trades ?pf)) = LONG
                 then (price - entry_price (last (trades ?pf))) * quantity (last (trades ?pf))
                 else (entry_price (last (trades ?pf)) - price) * quantity (last (trades ?pf)))
                - commission (last (trades ?pf))
                - pos_quantity p * price * commission_rate ?pf
          \<and> pnl_percent (last (trades (snd (close_position ?pf timestamp price))))
              = (if entry_price (last (trades ?pf)) > 0
                 then (if position_type (last (trades ?pf)) = LONG
                       then (price - entry_price (last (trades ?pf)))
                              / entry_price (last (trades ?pf)) * 100
                       else (entry_price (last (trades ?pf)) - price)
                              / entry_price (last (trades ?pf)) * 100)
                 else pnl_percent (last (trades ?pf)))
          \<and> get_open_trades (snd (close_position ?pf timestamp price)) = []
          \<and> current_position (snd (close_position ?pf timestamp price)) = None"
    if pos: "current_position ?pf = Some p" for p timestamp price
  proof -
    let ?c = "pos_quantity p * price * commission_rate ?pf"
    note cl = close_position_closes_last [OF inv pos, of timestamp price]
    have ne: "trades ?pf \<noteq> []" and op: "status (last (trades ?pf)) = ''OPEN''"
      using inv pos by (simp_all add: ledger_inv_def)
    have tr: "trades (snd (close_position ?pf timestamp price))
                = butlast (trades ?pf) @ [close_trade (last (trades ?pf)) timestamp price ?c]"
      using cl by simp
    have la: "last (trades (snd (close_position ?pf timestamp price)))
                = close_trade (last (trades ?pf)) timestamp price ?c"
      unfolding tr by simp
    have bl: "butlast (trades (snd (close_position ?pf timestamp price))) = butlast (trades ?pf)"
      unfolding tr by simp
    have len: "length (trades (snd (close_position ?pf timestamp price))) = length (trades ?pf)"
      unfolding tr using ne by simp
    have fields: "entry_time (close_trade (last (trades ?pf)) timestamp price ?c)
                    = entry_time (last (trades ?pf))
        \<and> position_type (close_trade (last (trades ?pf)) timestamp price ?c)
            = position_type (last (trades ?pf))
        \<and> entry_price (close_trade (last (trades ?pf)) timestamp price ?c)
            = entry_price (last (trades ?pf))
        \<and> quantity (close_trade (last (trades ?pf)) timestamp price ?c)
            = quantity (last (trades ?pf))
        \<and> exit_time (close_trade (last (trades ?pf)) timestamp price ?c) = Some timestamp
        \<and> exit_price (close_trade (last (trades ?pf)) timestamp price ?c) = price
        \<and> commission (close_trade (last (trades ?pf)) timestamp price ?c)
            = commission (last (trades ?pf)) + ?c
        \<and> pnl (close_trade (last (trades ?pf)) timestamp price ?c)
            = (if position_type (last (trades ?pf)) = LONG
               then (price - entry_price (last (trades ?pf))) * quantity (last (trades ?pf))
               else (entry_price (last (trades ?pf)) - price) * quantity (last (trades ?pf)))
              - commission (last (trades ?pf)) - ?c
        \<and> pnl_percent (close_trade (last (trades ?pf)) timestamp price ?c)
            = (if entry_price (last (trades ?pf)) > 0
               then (if position_type (last (trades ?pf)) = LONG
                     then (price - entry_price (last (trades ?pf)))
                            / entry_price (last (trades ?pf)) * 100
                     else (entry_price (last (trades ?pf)) - price)
                            / entry_price (last (trades ?pf)) * 100)
               else pnl_percent (last (trades ?pf)))"
      by (simp add: close_trade_def)
    show ?thesis
      using cl ot pos op la bl len fields by simp
  qed
  have 4: "current_position s = None"
    if "open_position s timestamp price ptype q = Inr (True, s')"
    for s timestamp price ptype q s'
    using open_position_success [OF that] by simp
  show ?thesis using 1 2 3 4 mid by blast
qed

lemma scenario_first_bar:
  "execute_rows (scenario_backtester\<lparr> portfolio := reset (portfolio scenario_backtester) \<rparr>)
     (take 1 scenario_rows)
   = Inr (scenario_backtester\<lparr> portfolio :=
        (Portfolio_init 10000 0 1 False)
          \<lparr> cash := 0,
            current_position :=
              Some \<lparr> pos_position_type = LONG, pos_entry_time = 1, pos_entry_price = 100,
                     pos_quantity = 100, current_price = 100 \<rparr>,
            trades :=
              [\<lparr> entry_time = 1, exit_time = None, position_type = LONG, entry_price = 100,
                 exit_price = 0, quantity = 100, commission = 0, pnl = 0, pnl_percent = 0,
                 status = ''OPEN'' \<rparr>],
            equity_curve := [10000],
            timestamps := [1] \<rparr> \<rparr>)"
  by (simp add: scenario_backtester_def scenario_rows_def Portfolio_init_def reset_def
      process_row_def process_signal_def execution_price_def row_signal_def
      open_position_def auto_quantity_def update_def update_price_def unrealized_pnl_def
      Let_def)

theorem at_most_one_open_trade_witness:
  "\<exists>bt'. execute_rows (scenario_backtester\<lparr> portfolio := reset (portfolio scenario_backtester) \<rparr>)
            (take 1 scenario_rows) = Inr bt'
     \<and> length (get_open_trades (portfolio bt')) = 1
     \<and> current_position (portfolio bt') \<noteq> None
     \<and> fst (close_position (portfolio bt') 2 110)
     \<and> get_open_trades (snd (close_position (portfolio bt') 2 110)) = []
     \<and> length (trades (snd (close_position (portfolio bt') 2 110))) = 1
     \<and> status (last (trades (snd (close_position (portfolio bt') 2 110)))) = ''CLOSED''
     \<and> entry_price (last (trades (snd (close_position (portfolio bt') 2 110)))) = 100
     \<and> exit_price (last (trades (snd (close_position (portfolio bt') 2 110)))) = 110
     \<and> exit_time (last (trades (snd (close_position (portfolio bt') 2 110)))) = Some 2
     \<and> pnl (last (trades (snd (close_position (portfolio bt') 2 110)))) = 1000"
proof -
  define p where "p = \<lparr> pos_position_type = LONG, pos_entry_time = 1, pos_entry_price = 100,
                         pos_quantity = 100, current_price = 100 \<rparr>"
  define tr where "tr = \<lparr> entry_time = 1, exit_time = None, position_type = LONG,
                          entry_price = 100, exit_price = 0, quantity = 100, commission = 0,
                          pnl = 0, pnl_percent = 0, status = ''OPEN'' \<rparr>"
  define pf where "pf = (Portfolio_init 10000 0 1 False)
                          \<lparr> cash := 0, current_position := Some p, trades := [tr],
                            equity_curve := [10000], timestamps := [1] \<rparr>"
  define bt1 where "bt1 = scenario_backtester\<lparr> portfolio := pf \<rparr>"
  have first: "execute_rows (scenario_backtester\<lparr> portfolio := reset (portfolio scenario_backtester) \<rparr>)
                 (take 1 scenario_rows) = Inr bt1"
    unfolding bt1_def pf_def p_def tr_def by (rule scenario_first_bar)
  have pf: "portfolio bt1 = pf"
    by (simp add: bt1_def)
  have pos: "current_position pf = Some p" and len: "length (trades pf) = 1"
    and la: "last (trades pf) = tr" and rate: "commission_rate pf = 0"
    by (simp_all add: pf_def Portfolio_init_def)
  have p: "pos_quantity p = 100"
    by (simp add: p_def)
  have tr: "position_type tr = LONG" "entry_price tr = 100" "quantity tr = 100"
    "commission tr = 0"
    by (simp_all add: tr_def)
  note run = at_most_one_open_trade [OF first, unfolded pf]
  note closing = run [THEN conjunct2, THEN conjunct2, THEN conjunct1, rule_format, OF pos,
      of 2 110]
  have one: "length (get_open_trades pf) = 1"
    using run [THEN conjunct2, THEN conjunct1] pos by simp
  from closing have c1: "fst (close_position pf 2 110)"
    and c2: "get_open_trades (snd (close_position pf 2 110)) = []"
    and c3: "length (trades (snd (close_position pf 2 110))) = length (trades pf)"
    and c4: "status (last (trades (snd (close_position pf 2 110)))) = ''CLOSED''"
    and c5: "entry_price (last (trades (snd (close_position pf 2 110))))
               = entry_price (last (trades pf))"
    and c6: "exit_price (last (trades (snd (close_position pf 2 110)))) = 110"
    and c7: "exit_time (last (trades (snd (close_position pf 2 110)))) = Some 2"
    and c8: "pnl (last (trades (snd (close_position pf 2 110))))
               = (if position_type (last (trades pf)) = LONG
                  then (110 - entry_price (last (trades pf))) * quantity (last (trades pf))
                  else (entry_price (last (trades pf)) - 110) * quantity (last (trades pf)))
                 - commission (last (trades pf))
                 - pos_quantity p * 110 * commission_rate pf"
    by blast+
  have c5': "entry_price (last (trades (snd (close_position pf 2 110)))) = 100"
    using c5 la tr by simp
  have c8': "pnl (last (trades (snd (close_position pf 2 110)))) = 1000"
    using c8 la tr p rate by simp
  have "length (get_open_trades (portfolio bt1)) = 1
     \<and> current_position (portfolio bt1) \<noteq> None
     \<and> fst (close_position (portfolio bt1) 2 110)
     \<and> get_open_trades (snd (close_position (portfolio bt1) 2 110)) = []
     \<and> length (trades (snd (close_position (portfolio bt1) 2 110))) = 1
     \<and> status (last (trades (snd (close_position (portfolio bt1) 2 110)))) = ''CLOSED''
     \<and> entry_price (last (trades (snd (close_position (portfolio bt1) 2 110)))) = 100
     \<and> exit_price (last (trades (snd (close_position (portfolio bt1) 2 110)))) = 110
     \<and> exit_time (last (trades (snd (close_position (portfolio bt1) 2 110)))) = Some 2
     \<and> pnl (last (trades (snd (close_position (portfolio bt1) 2 110)))) = 1000"
    unfolding pf using one pos c1 c2 c3 len c4 c5' c6 c7 c8' by simp
  with first show ?thesis by blast
qed

section \<open>Fill prices and the mark price\<close>

lemma close_position_trades:
  "length (trades (snd (close_position s timestamp price))) = length (trades s)
   \<and> (\<forall>p. current_position s = Some p \<and> trades s \<noteq> [] \<and> status (last (trades s)) = ''OPEN''
          \<longrightarrow> trades (snd (close_position s timestamp price)) ! (length (trades s) - 1)
                = close_trade (last (trades s)) timestamp price
                    (pos_quantity p * price * commission_rate s))"
  by (auto simp: close_position_def Let_def nth_append split: option.splits)

lemma open_step_fills:
  assumes "(case open_position pf1 timestamp price ptype None of
              Inl e \<Rightarrow> Inl e | Inr r \<Rightarrow> Inr (snd r)) = Inr pf'"
  shows "(length (trades pf1) < length (trades pf') \<longrightarrow>
            entry_price (last (trades pf')) = price
            \<and> (\<exists>p. current_position pf' = Some p \<and> pos_entry_price p = price))
         \<and> (\<forall>i < length (trades pf1). trades pf' ! i = trades pf1 ! i)"
proof (cases "open_position pf1 timestamp price ptype None")
  case (Inl e)
  with assms show ?thesis by simp
next
  case (Inr r)
  with assms have r: "open_position pf1 timestamp price ptype None = Inr (fst r, pf')"
    by (cases r) simp
  show ?thesis
  proof (cases "fst r")
    case True
    with r have "open_position pf1 timestamp price ptype None = Inr (True, pf')" by simp
    from open_position_success [OF this] show ?thesis
      by (auto simp: nth_append)
  next
    case False
    with r have "open_position pf1 timestamp price ptype None = Inr (False, pf')" by simp
    from open_position_declined [OF this] show ?thesis by simp
  qed
qed

lemma process_signal_fills:
  assumes "process_signal bt timestamp sig price = Inr pf'"
  shows "(length (trades (portfolio bt)) < length (trades pf') \<longrightarrow>
            (sig = signal_value BUY \<or> sig = signal_value SELL)
            \<and> entry_price (last (trades pf')) = price
            \<and> (\<exists>p. current_position pf' = Some p \<and> pos_entry_price p = price))
         \<and> (\<forall>p. current_position (portfolio bt) = Some p \<and> trades (portfolio bt) \<noteq> []
                \<and> status (last (trades (portfolio bt))) = ''OPEN''
                \<and> (sig = signal_value BUY \<and> pos_position_type p = SHORT
                    \<or> sig = signal_value SELL \<and> pos_position_type p = LONG)
              \<longrightarrow> trades pf' ! (length (trades (portfolio bt)) - 1)
                    = close_trade (last (trades (portfolio bt))) timestamp price
                        (pos_quantity p * price * commission_rate (portfolio bt)))"
proof -
  let ?pf = "portfolio bt"
  let ?closed = "snd (close_position ?pf timestamp price)"
  note cl = close_position_trades [of ?pf timestamp price]
  have pos: "length (trades ?pf) - 1 < length (trades ?pf)" if "trades ?pf \<noteq> []"
    using that by (cases "trades ?pf") auto
  consider (buy) "sig = signal_value BUY"
    | (sell) "sig = signal_value SELL" "sig \<noteq> signal_value BUY"
    | (hold) "sig \<noteq> signal_value BUY" "sig \<noteq> signal_value SELL"
    by blast
  then show ?thesis
  proof cases
    case buy
    define pf1 where "pf1 = (case current_position ?pf of
                      Some p \<Rightarrow> if pos_position_type p = SHORT then ?closed else ?pf
                    | None \<Rightarrow> ?pf)"
    have len: "length (trades pf1) = length (trades ?pf)"
      using cl by (simp add: pf1_def split: option.splits)
    have closed: "trades pf1 ! (length (trades ?pf) - 1)
                    = close_trade (last (trades ?pf)) timestamp price
                        (pos_quantity p * price * commission_rate ?pf)"
      if "current_position ?pf = Some p" "trades ?pf \<noteq> []"
         "status (last (trades ?pf)) = ''OPEN''" "pos_position_type p = SHORT" for p
      using cl that by (simp add: pf1_def)
    have res: "(if current_position pf1 = None
            then (case open_position pf1 timestamp price LONG None of
                    Inl e \<Rightarrow> Inl e
                  | Inr r \<Rightarrow> Inr (snd r))
            else Inr pf1) = Inr pf'"
      using assms buy unfolding process_signal_def pf1_def Let_def
      by (simp split del: if_split)
    show ?thesis
    proof (cases "current_position pf1 = None")
      case True
      with res have "(case open_position pf1 timestamp price LONG None of
                    Inl e \<Rightarrow> Inl e | Inr r \<Rightarrow> Inr (snd r)) = Inr pf'" by simp
      from open_step_fills [OF this] show ?thesis
        using buy len closed pos by auto
    next
      case False
      with res have "pf' = pf1" by simp
      then show ?thesis using buy len closed by auto
    qed
  next
    case sell
    define pf1 where "pf1 = (case current_position ?pf of
                      Some p \<Rightarrow> if pos_position_type p = LONG then ?closed else ?pf
                    | None \<Rightarrow> ?pf)"
    have len: "length (trades pf1) = length (trades ?pf)"
      using cl by (simp add: pf1_def split: option.splits)
    have closed: "trades pf1 ! (length (trades ?pf) - 1)
                    = close_trade (last (trades ?pf)) timestamp price
                        (pos_quantity p * price * commission_rate ?pf)"
      if "current_position ?pf = Some p" "trades ?pf \<noteq> []"
         "status (last (trades ?pf)) = ''OPEN''" "pos_position_type p = LONG" for p
      using cl that by (simp add: pf1_def)
    have res: "(if current_position pf1 = None \<and> bt_allow_short bt
            then (case open_position pf1 timestamp price SHORT None of
                    Inl e \<Rightarrow> Inl e
                  | Inr r \<Rightarrow> Inr (snd r))
            else Inr pf1) = Inr pf'"
      using assms sell unfolding process_signal_def pf1_def Let_def
      by (simp split del: if_split)
    show ?thesis
    proof (cases "current_position pf1 = None \<and> bt_allow_short bt")
      case True
      with res have "(case open_position pf1 timestamp price SHORT None of
                    Inl e \<Rightarrow> Inl e | Inr r \<Rightarrow> Inr (snd r)) = Inr pf'" by simp
      from open_step_fills [OF this] show ?thesis
        using sell len closed pos by auto
    next
      case False
      with res have "pf' = pf1" by auto
      then show ?thesis using sell len closed by auto
    qed
  next
    case hold
    with assms have "pf' = ?pf" by (simp add: process_signal_def Let_def)
    then show ?thesis using hold by simp
  qed
qed

lemma update_marks:
  "trades (update s timestamp price) = trades s
   \<and> cash (update s timestamp price) = cash s
   \<and> current_position (update s timestamp price)
       = map_option (\<lambda>p. p\<lparr> current_price := price \<rparr>) (current_position s)
   \<and> equity (update s timestamp price)
       = (case current_position (update s timestamp price) of
            None \<Rightarrow> cash s
          | Some p' \<Rightarrow> cash s + unrealized_pnl p' + pos_quantity p' * price)"
  by (simp add: update_def update_price_def Let_def split: option.splits)

text \<open>
  C5. For every bar the loop processes: a trade opened on the bar is entered at
  \<open>close \<times> (1 + slippage)\<close> on a BUY and at \<open>close \<times> (1 - slippage)\<close> on a SELL, and so is
  the position; a SHORT closed by a BUY exits at \<open>close \<times> (1 + slippage)\<close>, a LONG closed by
  a SELL at \<open>close \<times> (1 - slippage)\<close>; and \<open>update\<close> runs with the close itself: the open
  position is marked at the close, the equity is computed from the cash and the close, and
  that equity and the bar's timestamp are appended. The price at which the position is
  marked never carries the slippage.
\<close>

theorem slippage_on_fills_only:
  assumes "process_row bt row = Inr bt'"
  shows "(length (trades (portfolio bt)) < length (trades (portfolio bt')) \<longrightarrow>
            (row_signal row = signal_value BUY
               \<and> entry_price (last (trades (portfolio bt'))) = close row * (1 + slippage bt)
             \<or> row_signal row = signal_value SELL
               \<and> entry_price (last (trades (portfolio bt'))) = close row * (1 - slippage bt))
            \<and> map_option pos_entry_price (current_position (portfolio bt'))
                = Some (entry_price (last (trades (portfolio bt')))))
    \<and> (\<forall>p. current_position (portfolio bt) = Some p \<and> trades (portfolio bt) \<noteq> []
           \<and> status (last (trades (portfolio bt))) = ''OPEN'' \<longrightarrow>
           (row_signal row = signal_value BUY \<and> pos_position_type p = SHORT \<longrightarrow>
              status (trades (portfolio bt') ! (length (trades (portfolio bt)) - 1)) = ''CLOSED''
              \<and> exit_price (trades (portfolio bt') ! (length (trades (portfolio bt)) - 1))
                  = close row * (1 + slippage bt))
           \<and> (row_signal row = signal_value SELL \<and> pos_position_type p = LONG \<longrightarrow>
              status (trades (portfolio bt') ! (length (trades (portfolio bt)) - 1)) = ''CLOSED''
              \<and> exit_price (trades (portfolio bt') ! (length (trades (portfolio bt)) - 1))
                  = close row * (1 - slippage bt)))
    \<and> (\<forall>p'. current_position (portfolio bt') = Some p' \<longrightarrow>
           current_price p' = close row
           \<and> equity (portfolio bt')
               = cash (portfolio bt') + unrealized_pnl p' + pos_quantity p' * close row)
    \<and> (current_position (portfolio bt') = None \<longrightarrow>
           equity (portfolio bt') = cash (portfolio bt'))
    \<and> equity_curve (portfolio bt') = equity_curve (portfolio bt) @ [equity (portfolio bt')]
    \<and> timestamps (portfolio bt') = timestamps (portfolio bt) @ [row_time row]"
proof -
  let ?sig = "row_signal row"
  let ?price = "execution_price bt ?sig (close row)"
  obtain pf where pf: "process_signal bt (row_time row) ?sig ?price = Inr pf"
    and bt': "portfolio bt' = update pf (row_time row) (close row)"
    using assms by (auto simp: process_row_def Let_def split: sum.splits)
  note fills = process_signal_fills [OF pf]
  note marks = update_marks [of pf "row_time row" "close row"]
  have buy: "?price = close row * (1 + slippage bt)" if "?sig = signal_value BUY"
    using that by (simp add: execution_price_def)
  have sell: "?price = close row * (1 - slippage bt)" if "?sig = signal_value SELL"
    using that by (simp add: execution_price_def)
  have tr: "trades (portfolio bt') = trades pf"
    using bt' marks by simp
  have 1: "(row_signal row = signal_value BUY
               \<and> entry_price (last (trades (portfolio bt'))) = close row * (1 + slippage bt)
             \<or> row_signal row = signal_value SELL
               \<and> entry_price (last (trades (portfolio bt'))) = close row * (1 - slippage bt))
            \<and> map_option pos_entry_price (current_position (portfolio bt'))
                = Some (entry_price (last (trades (portfolio bt'))))"
    if "length (trades (portfolio bt)) < length (trades (portfolio bt'))"
  proof -
    from that fills tr
    have a: "?sig = signal_value BUY \<or> ?sig = signal_value SELL"
      and b: "entry_price (last (trades pf)) = ?price"
      and c: "\<exists>p. current_position pf = Some p \<and> pos_entry_price p = ?price"
      by auto
    from c bt' marks b tr
    have "map_option pos_entry_price (current_position (portfolio bt'))
                = Some (entry_price (last (trades (portfolio bt'))))"
      by auto
    then show ?thesis using a b tr buy sell by auto
  qed
  have 2: "(row_signal row = signal_value BUY \<and> pos_position_type p = SHORT \<longrightarrow>
              status (trades (portfolio bt') ! (length (trades (portfolio bt)) - 1)) = ''CLOSED''
              \<and> exit_price (trades (portfolio bt') ! (length (trades (portfolio bt)) - 1))
                  = close row * (1 + slippage bt))
           \<and> (row_signal row = signal_value SELL \<and> pos_position_type p = LONG \<longrightarrow>
              status (trades (portfolio bt') ! (length (trades (portfolio bt)) - 1)) = ''CLOSED''
              \<and> exit_price (trades (portfolio bt') ! (length (trades (portfolio bt)) - 1))
                  = close row * (1 - slippage bt))"
    if "current_position (portfolio bt) = Some p \<and> trades (portfolio bt) \<noteq> []
           \<and> status (last (trades (portfolio bt))) = ''OPEN''" for p
    using that fills tr buy sell by (auto simp: close_trade_def)
  have 3: "current_price p' = close row
           \<and> equity (portfolio bt')
               = cash (portfolio bt') + unrealized_pnl p' + pos_quantity p' * close row"
    if "current_position (portfolio bt') = Some p'" for p'
    using that bt' marks by auto
  have 4: "equity (portfolio bt') = cash (portfolio bt')"
    if "current_position (portfolio bt') = None"
    using that bt' marks by auto
  have 5: "equity_curve (portfolio bt') = equity_curve (portfolio bt) @ [equity (portfolio bt')]
    \<and> timestamps (portfolio bt') = timestamps (portfolio bt) @ [row_time row]"
    using bt' update_appends [of pf "row_time row" "close row"]
      process_signal_frame [OF pf] by simp
  show ?thesis using 1 2 3 4 5 by blast
qed


lemma slippage_buy_row:
  "process_row slippage_backtester \<lparr> row_time = 1, close = 100, signal = Some 1 \<rparr>
     = Inr (slippage_backtester\<lparr> portfolio := slippage_portfolio_long \<rparr>)"
  by (simp add: slippage_backtester_def slippage_portfolio_long_def Portfolio_init_def
      process_row_def process_signal_def execution_price_def row_signal_def
      open_position_def auto_quantity_def update_def update_price_def unrealized_pnl_def
      Let_def)

theorem slippage_on_fills_only_witness:
  "\<exists>bt1 bt2.
     process_row slippage_backtester \<lparr> row_time = 1, close = 100, signal = Some 1 \<rparr> = Inr bt1
     \<and> entry_price (last (trades (portfolio bt1))) = 101
     \<and> map_option pos_entry_price (current_position (portfolio bt1)) = Some 101
     \<and> map_option current_price (current_position (portfolio bt1)) = Some 100
     \<and> process_row bt1 \<lparr> row_time = 2, close = 110, signal = Some (- 1) \<rparr> = Inr bt2
     \<and> status (trades (portfolio bt2) ! 0) = ''CLOSED''
     \<and> exit_price (trades (portfolio bt2) ! 0) = 1089 / 10
     \<and> timestamps (portfolio bt2) = [1, 2]"
proof -
  let ?bt1 = "slippage_backtester\<lparr> portfolio := slippage_portfolio_long \<rparr>"
  let ?sell = "\<lparr> row_time = 2, close = 110, signal = Some (- 1) \<rparr>"
  have "\<exists>bt2. process_row ?bt1 ?sell = Inr bt2"
    by (rule process_row_returns)
       (simp_all add: slippage_backtester_def slippage_portfolio_long_def Portfolio_init_def)
  then obtain bt2 where sell: "process_row ?bt1 ?sell = Inr bt2" ..
  have a: "entry_price (last (trades (portfolio ?bt1))) = 101
     \<and> map_option pos_entry_price (current_position (portfolio ?bt1)) = Some 101
     \<and> map_option current_price (current_position (portfolio ?bt1)) = Some 100"
    using slippage_on_fills_only [OF slippage_buy_row]
    by (simp add: slippage_backtester_def slippage_portfolio_long_def Portfolio_init_def
        row_signal_def)
  have b: "status (trades (portfolio bt2) ! 0) = ''CLOSED''
     \<and> exit_price (trades (portfolio bt2) ! 0) = 1089 / 10
     \<and> timestamps (portfolio bt2) = [1, 2]"
    using slippage_on_fills_only [OF sell]
    by (simp add: slippage_backtester_def slippage_portfolio_long_def Portfolio_init_def
        row_signal_def)
  show ?thesis
    using slippage_buy_row sell a b by blast
qed

section \<open>Maximum drawdown\<close>

lemma expanding_max_from_bounds:
  assumes "(e, mm) \<in> set (zip xs (expanding_max_from m xs))"
  shows "m \<le> mm \<and> e \<le> mm"
  using assms
proof (induction xs arbitrary: m)
  case Nil
  then show ?case by simp
next
  case (Cons x xs)
  then show ?case by (fastforce simp: max_def split: if_splits)
qed

lemma expanding_max_from_sorted:
  "(\<forall>(e, mm) \<in> set (zip xs (expanding_max_from m xs)). e = mm) \<longleftrightarrow> sorted (m # xs)"
proof (induction xs arbitrary: m)
  case Nil
  then show ?case by simp
next
  case (Cons x xs)
  show ?case
  proof (cases "m \<le> x")
    case True
    then have "max m x = x" by simp
    with Cons.IH [of x] True show ?thesis by (auto intro: order_trans)
  next
    case False
    then show ?thesis by auto
  qed
qed

lemma fold_np_min_Fin: "fold np_min (map Fin ys) (Fin y) = Fin (fold min ys y)"
  by (induction ys arbitrary: y) simp_all

lemma series_min_Fin: "series_min (map Fin (d # ds)) = Fin (Min (set (d # ds)))"
proof -
  have "filter (\<lambda>x. x \<noteq> NaN) (map Fin (d # ds)) = map Fin (d # ds)"
    by (induction ds) simp_all
  then have "series_min (map Fin (d # ds)) = fold np_min (map Fin ds) (Fin d)"
    by (simp add: series_min_def)
  then show ?thesis
    by (simp only: fold_np_min_Fin Min.set_eq_fold)
qed

text \<open>The drawdown of one sample under a positive running maximum.\<close>

lemma drawdown_entry:
  assumes "0 < mm"
  shows "np_times (np_div (e - mm) mm) 100 = Fin ((e - mm) / mm * 100)"
  using assms by (simp add: np_div_def)

lemma drawdown_series_positive_start:
  assumes "0 < x"
  shows "drawdown_series (x # xs)
           = map Fin (map (\<lambda>(e, mm). (e - mm) / mm * 100)
                          (zip (x # xs) (expanding_max (x # xs))))"
proof -
  have "np_times (np_div (e - mm) mm) 100 = Fin ((e - mm) / mm * 100)"
    if "(e, mm) \<in> set (zip (x # xs) (expanding_max (x # xs)))" for e mm
  proof -
    from that have "x \<le> mm"
      using expanding_max_from_bounds [of e mm xs x] by auto
    with assms have "0 < mm" by simp
    then show ?thesis by (rule drawdown_entry)
  qed
  then show ?thesis
    unfolding drawdown_series_def map_map
    by (intro map_cong) auto
qed

lemma max_drawdown_positive_start:
  assumes "0 < x"
  shows "\<exists>d. np_abs (series_min (drawdown_series (x # xs))) = Fin d \<and> 0 \<le> d
             \<and> (d = 0 \<longleftrightarrow> sorted (x # xs))"
proof -
  define z where "z = zip xs (expanding_max_from x xs)"
  define f where "f = (\<lambda>(e :: real, mm :: real). (e - mm) / mm * 100)"
  define ds where "ds = map f z"
  have series: "drawdown_series (x # xs) = map Fin (0 # ds)"
    using drawdown_series_positive_start [OF assms, of xs] assms
    by (simp add: ds_def f_def z_def)
  have pos: "0 < mm \<and> e \<le> mm" if "(e, mm) \<in> set z" for e mm
    using that assms expanding_max_from_bounds [of e mm xs x] by (auto simp: z_def)
  have nonpos: "d \<le> 0" if "d \<in> set ds" for d
  proof -
    from that obtain e mm where "(e, mm) \<in> set z" and d: "d = (e - mm) / mm * 100"
      by (auto simp: ds_def f_def)
    with pos have "0 < mm" "e \<le> mm" by blast+
    then show ?thesis unfolding d by (simp add: divide_nonpos_pos)
  qed
  have zero: "(\<forall>d \<in> set ds. d = 0) \<longleftrightarrow> (\<forall>(e, mm) \<in> set z. e = mm)"
  proof -
    have "f (e, mm) = 0 \<longleftrightarrow> e = mm" if "(e, mm) \<in> set z" for e mm
      using pos [OF that] by (simp add: f_def)
    then show ?thesis by (auto simp: ds_def)
  qed
  have srt: "(\<forall>(e, mm) \<in> set z. e = mm) \<longleftrightarrow> sorted (x # xs)"
    unfolding z_def by (rule expanding_max_from_sorted)
  define m where "m = Min (set (0 # ds))"
  have m_in: "m \<in> set (0 # ds)"
    unfolding m_def by (rule Min_in) simp_all
  have m_le: "m \<le> 0"
    using m_in nonpos by auto
  have m_least: "m \<le> d" if "d \<in> set ds" for d
    unfolding m_def using that by (intro Min_le) simp_all
  have m_zero: "m = 0 \<longleftrightarrow> (\<forall>d \<in> set ds. d = 0)"
  proof
    assume m0: "m = 0"
    show "\<forall>d \<in> set ds. d = 0"
    proof
      fix d assume d: "d \<in> set ds"
      from m_least [OF d] m0 nonpos [OF d] show "d = 0" by simp
    qed
  next
    assume "\<forall>d \<in> set ds. d = 0"
    with m_in show "m = 0" by auto
  qed
  have "series_min (drawdown_series (x # xs)) = Fin m"
    unfolding series m_def by (rule series_min_Fin)
  then have "np_abs (series_min (drawdown_series (x # xs))) = Fin (- m)"
    using m_le by simp
  moreover have "0 \<le> - m" using m_le by simp
  moreover have "- m = 0 \<longleftrightarrow> sorted (x # xs)"
    using m_zero zero srt by simp
  ultimately show ?thesis by blast
qed

text \<open>
  C8, as stated: for every non-empty equity curve the maximum drawdown is \<open>\<ge> 0\<close>, and it is
  \<open>0\<close> if and only if the curve is non-decreasing. On the falling curve \<open>-1, -2\<close> the
  running maximum is \<open>-1\<close>, the drawdowns are \<open>0\<close> and \<open>+100\<close>, their minimum is \<open>0\<close>, and
  the maximum drawdown is \<open>0\<close>.
\<close>

theorem max_drawdown_negative_curve:
  "calculate_max_drawdown [- 1, - 2] = Fin 0
   \<and> calculate_max_drawdown_value [- 1, - 2] = Fin 0
   \<and> \<not> sorted [- 1, - 2 :: real]"
  by (simp add: calculate_max_drawdown_def calculate_max_drawdown_value_def
      drawdown_series_def series_min_def np_div_def)

text \<open>
  C8, amended: for every non-empty equity curve whose first sample is positive, both
  computations of the maximum drawdown give the same finite number, it is \<open>\<ge> 0\<close>, and it
  is \<open>0\<close> if and only if the curve is non-decreasing.
\<close>

theorem max_drawdown_nonneg_and_zero_iff_sorted:
  assumes "equity_col \<noteq> []" and "0 < hd equity_col"
  shows "\<exists>d. calculate_max_drawdown equity_col = Fin d
             \<and> calculate_max_drawdown_value equity_col = Fin d
             \<and> 0 \<le> d \<and> (d = 0 \<longleftrightarrow> sorted equity_col)"
proof -
  from assms obtain x xs where eq: "equity_col = x # xs" and x: "0 < x"
    by (cases equity_col) auto
  from max_drawdown_positive_start [OF x, of xs] show ?thesis
    unfolding eq calculate_max_drawdown_def calculate_max_drawdown_value_def by simp
qed

theorem max_drawdown_nonneg_and_zero_iff_sorted_witness:
  "calculate_max_drawdown [100, 110] = Fin 0
   \<and> calculate_max_drawdown_value [100, 110] = Fin 0
   \<and> calculate_max_drawdown [100, 120, 90, 130] \<noteq> Fin 0"
  using max_drawdown_nonneg_and_zero_iff_sorted [of "[100, 110]"]
    max_drawdown_nonneg_and_zero_iff_sorted [of "[100, 120, 90, 130]"]
  by auto

lemma max_drawdown_example: "calculate_max_drawdown [100, 120, 90, 130] = Fin 25"
  by (simp add: calculate_max_drawdown_def drawdown_series_def series_min_def np_div_def)

lemma max_drawdown_zero_capital: "calculate_max_drawdown [0, 0] = NaN"
  by (simp add: calculate_max_drawdown_def drawdown_series_def series_min_def np_div_def)

section \<open>Profit factor\<close>

lemma sum_list_pos:
  assumes "\<forall>x \<in> set xs. (0::real) < x" and "xs \<noteq> []"
  shows "0 < sum_list xs"
  using assms by (induction xs) (auto intro: add_pos_nonneg sum_list_nonneg less_imp_le)

lemma gross_profit_pos_iff: "0 < gross_profit s \<longleftrightarrow> 0 < winning_trades s"
proof (cases "filter is_winner (get_closed_trades s) = []")
  case True
  then show ?thesis by (simp add: gross_profit_def winning_trades_def)
next
  case False
  have "0 < sum_list (map pnl (filter is_winner (get_closed_trades s)))"
    using False by (intro sum_list_pos) (auto simp: is_winner_def)
  with False show ?thesis by (simp add: gross_profit_def winning_trades_def)
qed

lemma sum_list_nonpos_zero_iff:
  assumes "\<forall>x \<in> set xs. x \<le> (0::real)"
  shows "sum_list xs \<le> 0 \<and> (sum_list xs = 0 \<longleftrightarrow> (\<forall>x \<in> set xs. x = 0))"
  using assms
proof (induction xs)
  case Nil
  then show ?case by simp
next
  case (Cons x xs)
  then have "x \<le> 0" "sum_list xs \<le> 0" "sum_list xs = 0 \<longleftrightarrow> (\<forall>y \<in> set xs. y = 0)"
    by simp_all
  then show ?case by auto
qed

lemma gross_loss_zero_iff:
  "gross_loss s = 0 \<longleftrightarrow> (\<forall>t \<in> set (get_closed_trades s). 0 \<le> pnl t)"
proof -
  let ?ls = "map pnl (filter (\<lambda>t. \<not> is_winner t) (get_closed_trades s))"
  have "\<forall>x \<in> set ?ls. x \<le> 0" by (auto simp: is_winner_def)
  from sum_list_nonpos_zero_iff [OF this]
  have "sum_list ?ls = 0 \<longleftrightarrow> (\<forall>x \<in> set ?ls. x = 0)" by simp
  also have "\<dots> \<longleftrightarrow> (\<forall>t \<in> set (get_closed_trades s). 0 \<le> pnl t)"
    by (auto simp: is_winner_def)
  finally show ?thesis by (simp add: gross_loss_def)
qed

lemma is_winner_fun: "is_winner = (\<lambda>t. 0 < pnl t)"
  by (rule ext) (simp add: is_winner_def)

lemma trade_metrics_profit_factor_eq:
  assumes "get_closed_trades s \<noteq> []"
  shows "trade_metrics_profit_factor (trades s)
           = Inr (Some (if gross_loss s > 0 then Fin (gross_profit s / gross_loss s)
                        else PInf))"
proof -
  let ?closed = "filter (\<lambda>t. status t = ''CLOSED'') (trades s)"
  let ?wins = "filter (\<lambda>t. 0 < pnl t) ?closed"
  let ?losses = "filter (\<lambda>t. pnl t \<le> 0) ?closed"
  have gp: "(if ?wins \<noteq> [] then sum_list (map pnl ?wins) else 0) = gross_profit s"
    by (simp add: gross_profit_def get_closed_trades_def is_winner_fun)
  have gl: "(if ?losses \<noteq> [] then \<bar>sum_list (map pnl ?losses)\<bar> else 0) = gross_loss s"
    by (simp add: gross_loss_def get_closed_trades_def is_winner_fun not_less)
  have "?closed \<noteq> []"
    using assms by (simp add: get_closed_trades_def)
  moreover from this have "trades s \<noteq> []"
    by auto
  ultimately show ?thesis
    unfolding trade_metrics_profit_factor_def Let_def gp gl by simp
qed

text \<open>
  C4, as stated: the profit factor is \<open>+\<infinity>\<close> exactly when there is at least one winning trade
  and no losing trade. \<open>losing_trades\<close> counts every closed trade that is not a winner; with
  a win of 5 and a trade that broke even there is one winning and one losing trade, the
  gross loss is \<open>0\<close>, and the profit factor is \<open>+\<infinity>\<close>.
\<close>

theorem profit_factor_infinite_with_losing_trade:
  "winning_trades breakeven_portfolio = 1
   \<and> losing_trades breakeven_portfolio = 1
   \<and> profit_factor breakeven_portfolio = PInf"
  by (simp add: breakeven_portfolio_def Portfolio_init_def winning_trades_def
      losing_trades_def profit_factor_def gross_profit_def gross_loss_def
      get_closed_trades_def is_winner_def)

text \<open>
  C4, amended: for every log, \<open>Portfolio.profit_factor\<close> is \<open>gross_profit / gross_loss\<close>
  when the gross loss is not \<open>0\<close>; it is \<open>+\<infinity>\<close> exactly when there is at least one winning
  trade and no closed trade has a negative P&L, in particular when there are winning and no
  losing trades; it is \<open>0\<close> when there is no winning trade. The \<open>profit_factor\<close> of
  \<open>_calculate_trade_metrics\<close> is the same value whenever there is a closed trade and the
  gross loss is not \<open>0\<close> or there is a winning trade.
\<close>

theorem profit_factor_cases:
  "(gross_loss s \<noteq> 0 \<longrightarrow> profit_factor s = Fin (gross_profit s / gross_loss s))
   \<and> (profit_factor s = PInf
        \<longleftrightarrow> 0 < winning_trades s \<and> (\<forall>t \<in> set (get_closed_trades s). 0 \<le> pnl t))
   \<and> (0 < winning_trades s \<and> losing_trades s = 0 \<longrightarrow> profit_factor s = PInf)
   \<and> (winning_trades s = 0 \<longrightarrow> profit_factor s = Fin 0)
   \<and> (get_closed_trades s \<noteq> [] \<and> (gross_loss s \<noteq> 0 \<or> 0 < winning_trades s)
        \<longrightarrow> trade_metrics_profit_factor (trades s) = Inr (Some (profit_factor s)))"
proof -
  have gl_nonneg: "0 \<le> gross_loss s" by (simp add: gross_loss_def)
  have 1: "profit_factor s = Fin (gross_profit s / gross_loss s)" if "gross_loss s \<noteq> 0"
    using that by (simp add: profit_factor_def)
  have 2: "profit_factor s = PInf
        \<longleftrightarrow> 0 < winning_trades s \<and> (\<forall>t \<in> set (get_closed_trades s). 0 \<le> pnl t)"
    using gross_profit_pos_iff [of s] gross_loss_zero_iff [of s]
    by (auto simp: profit_factor_def)
  have "gross_loss s = 0" if "losing_trades s = 0"
    using that by (simp add: losing_trades_def gross_loss_def)
  then have 3: "profit_factor s = PInf" if "0 < winning_trades s \<and> losing_trades s = 0"
    using that gross_profit_pos_iff [of s] by (simp add: profit_factor_def)
  have "gross_profit s = 0" if "winning_trades s = 0"
    using that by (simp add: winning_trades_def gross_profit_def)
  then have 4: "profit_factor s = Fin 0" if "winning_trades s = 0"
    using that by (simp add: profit_factor_def)
  have 5: "trade_metrics_profit_factor (trades s) = Inr (Some (profit_factor s))"
    if "get_closed_trades s \<noteq> [] \<and> (gross_loss s \<noteq> 0 \<or> 0 < winning_trades s)"
    using that gl_nonneg gross_profit_pos_iff [of s] trade_metrics_profit_factor_eq [of s]
    by (auto simp: profit_factor_def)
  show ?thesis using 1 2 3 4 5 by blast
qed

theorem profit_factor_cases_witness:
  "profit_factor losing_portfolio = Fin (5 / 2)
   \<and> trade_metrics_profit_factor (trades losing_portfolio) = Inr (Some (Fin (5 / 2)))
   \<and> profit_factor breakeven_portfolio = PInf
   \<and> trade_metrics_profit_factor (trades breakeven_portfolio) = Inr (Some PInf)
   \<and> profit_factor (Portfolio_init 100 0 1 False) = Fin 0"
proof -
  have loss: "gross_loss losing_portfolio = 2" and profit: "gross_profit losing_portfolio = 5"
    and closed: "get_closed_trades losing_portfolio \<noteq> []"
    by (simp_all add: losing_portfolio_def Portfolio_init_def gross_loss_def gross_profit_def
        get_closed_trades_def is_winner_def)
  have a: "profit_factor losing_portfolio = Fin (5 / 2)
           \<and> trade_metrics_profit_factor (trades losing_portfolio) = Inr (Some (Fin (5 / 2)))"
    using profit_factor_cases [of losing_portfolio] loss profit closed by simp
  have b: "profit_factor breakeven_portfolio = PInf
           \<and> trade_metrics_profit_factor (trades breakeven_portfolio) = Inr (Some PInf)"
    using profit_factor_cases [of breakeven_portfolio]
    by (simp add: breakeven_portfolio_def Portfolio_init_def winning_trades_def
        get_closed_trades_def is_winner_def)
  have c: "profit_factor (Portfolio_init 100 0 1 False) = Fin 0"
    using profit_factor_cases [of "Portfolio_init 100 0 1 False"]
    by (simp add: Portfolio_init_def winning_trades_def get_closed_trades_def)
  show ?thesis using a b c by simp
qed

text \<open>Outside the amended statement: on a log whose closed trades all broke even,
  \<open>Portfolio.profit_factor\<close> is \<open>0\<close> and \<open>_calculate_trade_metrics\<close> reports \<open>+\<infinity>\<close>.\<close>

lemma trade_metrics_profit_factor_breakeven:
  "profit_factor (breakeven_portfolio\<lparr> trades := tl (trades breakeven_portfolio) \<rparr>) = Fin 0
   \<and> trade_metrics_profit_factor (tl (trades breakeven_portfolio)) = Inr (Some PInf)"
  by (simp add: breakeven_portfolio_def Portfolio_init_def profit_factor_def
      gross_profit_def gross_loss_def get_closed_trades_def is_winner_def
      trade_metrics_profit_factor_def)

section \<open>Empty metrics\<close>

text \<open>
  C3, as stated: an equity curve that is empty or has one sample yields an empty metrics
  set, with no return, risk or drawdown figure. On a curve of one sample
  \<open>_calculate_return_metrics\<close> returns its four figures, and so does
  \<open>_calculate_drawdown_metrics\<close>.
\<close>

theorem single_sample_metrics_not_empty:
  "calculate_return_metrics_keys [10000]
     = [''total_return_pct'', ''cagr'', ''average_daily_return'', ''return_volatility'']
   \<and> calculate_drawdown_metrics_keys [10000] \<noteq> []
   \<and> calculate_all_metrics_keys [10000] [] \<noteq> Inr []"
  by (simp add: calculate_return_metrics_keys_def calculate_drawdown_metrics_keys_def
      calculate_risk_metrics_keys_def calculate_all_metrics_keys_def)

text \<open>
  C3, amended: an empty equity curve yields no return, no risk and no drawdown figure. A
  curve of one sample yields no risk figure, while its four return figures and its four
  drawdown figures are reported. For a trade log without a closed trade and every equity
  curve, \<open>calculate_all_metrics\<close> adds no trade metrics: its result is that of the return,
  risk and drawdown metrics alone, which is the empty set for the empty curve and the
  eight return and drawdown figures for a curve of one sample; and \<open>_calculate_trade_metrics\<close>
  returns the empty set on the frame of such a log that is not empty.
\<close>

theorem empty_curve_empty_metrics:
  "calculate_return_metrics_keys [] = []
   \<and> calculate_risk_metrics_keys [] = Inr []
   \<and> calculate_drawdown_metrics_keys [] = []
   \<and> calculate_risk_metrics_keys [e] = Inr []
   \<and> calculate_return_metrics_keys [e]
       = [''total_return_pct'', ''cagr'', ''average_daily_return'', ''return_volatility'']
   \<and> calculate_drawdown_metrics_keys [e]
       = [''max_drawdown_pct'', ''max_drawdown_duration_bars'', ''current_drawdown_pct'',
          ''recovery_factor'']
   \<and> (filter (\<lambda>t. status t = ''CLOSED'') trades_df = [] \<longrightarrow>
        calculate_all_metrics_keys equity_col trades_df
          = (case calculate_risk_metrics_keys equity_col of
               Inl err \<Rightarrow> Inl err
             | Inr risk_keys \<Rightarrow>
                 Inr (calculate_return_metrics_keys equity_col @ risk_keys
                      @ calculate_drawdown_metrics_keys equity_col))
        \<and> calculate_all_metrics_keys [] trades_df = Inr []
        \<and> calculate_all_metrics_keys [e] trades_df
            = Inr [''total_return_pct'', ''cagr'', ''average_daily_return'',
                   ''return_volatility'', ''max_drawdown_pct'', ''max_drawdown_duration_bars'',
                   ''current_drawdown_pct'', ''recovery_factor'']
        \<and> (trades_df \<noteq> [] \<longrightarrow>
             calculate_trade_metrics_keys trades_df = Inr []
             \<and> trade_metrics_profit_factor trades_df = Inr None))"
proof -
  have guards: "calculate_return_metrics_keys [] = []
     \<and> calculate_risk_metrics_keys [] = Inr []
     \<and> calculate_drawdown_metrics_keys [] = []
     \<and> calculate_risk_metrics_keys [e] = Inr []
     \<and> calculate_return_metrics_keys [e]
         = [''total_return_pct'', ''cagr'', ''average_daily_return'', ''return_volatility'']
     \<and> calculate_drawdown_metrics_keys [e]
         = [''max_drawdown_pct'', ''max_drawdown_duration_bars'', ''current_drawdown_pct'',
            ''recovery_factor'']"
    by (simp add: calculate_return_metrics_keys_def calculate_risk_metrics_keys_def
        calculate_drawdown_metrics_keys_def)
  have trade: "(if trades_df \<noteq> [] then calculate_trade_metrics_keys trades_df else Inr [])
                 = Inr []"
    if "filter (\<lambda>t. status t = ''CLOSED'') trades_df = []"
    using that by (simp add: calculate_trade_metrics_keys_def)
  have all_metrics: "calculate_all_metrics_keys ec trades_df
          = (case calculate_risk_metrics_keys ec of
               Inl err \<Rightarrow> Inl err
             | Inr risk_keys \<Rightarrow>
                 Inr (calculate_return_metrics_keys ec @ risk_keys
                      @ calculate_drawdown_metrics_keys ec))"
    if "filter (\<lambda>t. status t = ''CLOSED'') trades_df = []" for ec
    unfolding calculate_all_metrics_keys_def Let_def trade [OF that]
    by (simp split: sum.splits)
  have direct: "calculate_trade_metrics_keys trades_df = Inr []
             \<and> trade_metrics_profit_factor trades_df = Inr None"
    if "filter (\<lambda>t. status t = ''CLOSED'') trades_df = []" and "trades_df \<noteq> []"
    using that by (simp add: calculate_trade_metrics_keys_def trade_metrics_profit_factor_def)
  have "calculate_all_metrics_keys [] trades_df = Inr []
        \<and> calculate_all_metrics_keys [e] trades_df
            = Inr [''total_return_pct'', ''cagr'', ''average_daily_return'',
                   ''return_volatility'', ''max_drawdown_pct'', ''max_drawdown_duration_bars'',
                   ''current_drawdown_pct'', ''recovery_factor'']"
    if "filter (\<lambda>t. status t = ''CLOSED'') trades_df = []"
    using all_metrics [OF that, of "[]"] all_metrics [OF that, of "[e]"] guards by simp
  then show ?thesis
    using guards all_metrics direct by blast
qed

theorem empty_curve_empty_metrics_witness:
  "calculate_risk_metrics_keys [10000] = Inr []
   \<and> calculate_trade_metrics_keys (trades small_portfolio_long) = Inr []
   \<and> calculate_all_metrics_keys [] (trades small_portfolio_long) = Inr []
   \<and> calculate_all_metrics_keys [] [] = Inr []
   \<and> calculate_all_metrics_keys [10000] (trades small_portfolio_long)
       = Inr [''total_return_pct'', ''cagr'', ''average_daily_return'', ''return_volatility'',
              ''max_drawdown_pct'', ''max_drawdown_duration_bars'', ''current_drawdown_pct'',
              ''recovery_factor'']
   \<and> calculate_all_metrics_keys [10000, 11000] (trades small_portfolio_long)
       = Inr [''total_return_pct'', ''cagr'', ''average_daily_return'', ''return_volatility'',
              ''sharpe_ratio'', ''sortino_ratio'', ''calmar_ratio'', ''var_95'', ''cvar_95'',
              ''max_drawdown_pct'', ''max_drawdown_duration_bars'', ''current_drawdown_pct'',
              ''recovery_factor'']"
proof -
  have closed: "filter (\<lambda>t. status t = ''CLOSED'') (trades small_portfolio_long) = []"
    and ne: "trades small_portfolio_long \<noteq> []"
    by (simp_all add: small_portfolio_long_def small_portfolio_def Portfolio_init_def)
  have risk: "calculate_risk_metrics_keys [10000, 11000]
                = Inr [''sharpe_ratio'', ''sortino_ratio'', ''calmar_ratio'', ''var_95'',
                       ''cvar_95'']"
    by (simp add: calculate_risk_metrics_keys_def dropna_def np_div_def)
  have ret: "calculate_return_metrics_keys [10000, 11000]
                = [''total_return_pct'', ''cagr'', ''average_daily_return'',
                   ''return_volatility'']"
    and dd: "calculate_drawdown_metrics_keys [10000, 11000]
                = [''max_drawdown_pct'', ''max_drawdown_duration_bars'',
                   ''current_drawdown_pct'', ''recovery_factor'']"
    by (simp_all add: calculate_return_metrics_keys_def calculate_drawdown_metrics_keys_def)
  show ?thesis
    using empty_curve_empty_metrics [of 10000 "trades small_portfolio_long" "[10000, 11000]"]
      empty_curve_empty_metrics [of 10000 "[]" "[]"] closed ne risk ret dd
    by simp
qed

text \<open>Called on the frame of an empty log, \<open>_calculate_trade_metrics\<close> itself raises; and on
  a curve of zeros the risk metrics raise, and with them \<open>calculate_all_metrics\<close>.\<close>

lemma trade_metrics_of_empty_log: "calculate_trade_metrics_keys [] = Inl KeyError"
  by (simp add: calculate_trade_metrics_keys_def)

lemma risk_metrics_of_zero_curve:
  "calculate_risk_metrics_keys [0, 0] = Inl IndexError
   \<and> calculate_all_metrics_keys [0, 0] trades_df = Inl IndexError"
  by (simp add: calculate_risk_metrics_keys_def calculate_all_metrics_keys_def dropna_def
      np_div_def)

end
